theory Spec2Isabelle
  imports Complex_Main "HOL-Library.Multiset"
begin

section \<open>JavaScript values used by the services\<close>

text \<open>
  A JavaScript number is modelled as \<open>real option\<close>: \<open>None\<close> is \<open>NaN\<close>, \<open>Some r\<close> a
  finite number. A string is the list of its characters, the 256 of Latin-1.

  What the language and its library compute is not in the sources of the services.
  It is a parameter of the model, the engine: the lowercasing of a string, the white
  space \<open>parseInt\<close> skips, the string a number converts to, the rounding of an exact
  result to the nearest double, and the functions of \<open>Math\<close>. Every sum, difference,
  product and quotient of the services is rounded by the engine; an integer literal
  and \<open>0.5\<close> are doubles as they stand, and a literal such as \<open>0.7\<close> is the double
  the rounding gives for it. All that is known of the rounding is that it leaves 0
  and 1 as they are.
\<close>

type_synonym jsnum = "real option"

typedef rounding = "{f :: real \<Rightarrow> real. f 0 = 0 \<and> f 1 = 1}"
  by (rule exI[of _ "\<lambda>x. x"]) simp

record engine =
  toLowerCase :: "string \<Rightarrow> string"
  strWhiteSpace :: "char \<Rightarrow> bool"
  numberToString :: "real \<Rightarrow> string"
  roundNearest :: rounding
  mathPI :: real
  mathSin :: "real \<Rightarrow> real"
  mathCos :: "real \<Rightarrow> real"
  mathSqrt :: "real \<Rightarrow> real"
  mathAtan2 :: "real \<Rightarrow> real \<Rightarrow> real"

definition rd :: "engine \<Rightarrow> real \<Rightarrow> real" where
  "rd E x = Rep_rounding (roundNearest E) x"

definition jsSqrt :: "engine \<Rightarrow> real \<Rightarrow> jsnum" where
  \<comment> \<open>\<open>Math.sqrt\<close> of a negative number is \<open>NaN\<close>\<close>
  "jsSqrt E x = (if x < 0 then None else Some (mathSqrt E x))"

section \<open>hotelService: string similarity\<close>

text \<open>
  \<open>calculateStringSimilarity\<close> fills a table \<open>dp\<close> of \<open>(m + 1) \<times> (n + 1)\<close> cells. The
  table is a function from the two indices to the cell; it starts with every cell 0.
\<close>

type_synonym table = "nat \<Rightarrow> nat \<Rightarrow> nat"

definition setCell :: "table \<Rightarrow> nat \<Rightarrow> nat \<Rightarrow> nat \<Rightarrow> table" where
  "setCell dp i j v = dp(i := (dp i)(j := v))"

definition initColumn :: "nat \<Rightarrow> table \<Rightarrow> table" where
  \<comment> \<open>\<open>for (let i = 0; i <= m; i++) dp[i][0] = i\<close>\<close>
  "initColumn m dp = fold (\<lambda>i dp. setCell dp i 0 i) [0..<m + 1] dp"

definition initRow :: "nat \<Rightarrow> table \<Rightarrow> table" where
  \<comment> \<open>\<open>for (let j = 0; j <= n; j++) dp[0][j] = j\<close>\<close>
  "initRow n dp = fold (\<lambda>j dp. setCell dp 0 j j) [0..<n + 1] dp"

definition cellStep :: "string \<Rightarrow> string \<Rightarrow> nat \<Rightarrow> nat \<Rightarrow> table \<Rightarrow> table" where
  \<comment> \<open>the body of the inner loop\<close>
  "cellStep str1 str2 i j dp =
     (if str1 ! (i - 1) = str2 ! (j - 1)
      then setCell dp i j (dp (i - 1) (j - 1))
      else setCell dp i j
             (min (dp (i - 1) (j - 1) + 1) (min (dp (i - 1) j + 1) (dp i (j - 1) + 1))))"

definition fillRow :: "string \<Rightarrow> string \<Rightarrow> nat \<Rightarrow> table \<Rightarrow> table" where
  \<comment> \<open>\<open>for (let j = 1; j <= n; j++)\<close>\<close>
  "fillRow str1 str2 i dp = fold (cellStep str1 str2 i) [1..<length str2 + 1] dp"

definition fillTable :: "string \<Rightarrow> string \<Rightarrow> table" where
  \<comment> \<open>\<open>for (let i = 1; i <= m; i++)\<close>, after the two initialising loops\<close>
  "fillTable str1 str2 =
     fold (fillRow str1 str2) [1..<length str1 + 1]
       (initRow (length str2) (initColumn (length str1) (\<lambda>_ _. 0)))"

definition calculateStringSimilarity :: "engine \<Rightarrow> string \<Rightarrow> string \<Rightarrow> jsnum" where
  \<comment> \<open>\<open>0 / 0\<close> is \<open>NaN\<close>, and so is \<open>1 - NaN\<close>\<close>
  "calculateStringSimilarity E str1 str2 =
     (let m = length str1; n = length str2;
          dp = fillTable str1 str2;
          maxLength = max m n
      in if maxLength = 0 then None
         else Some (rd E (1 - rd E (real (dp m n) / real maxLength))))"

text \<open>The cell \<open>dp[i][j]\<close> by its recurrence.\<close>

fun lev :: "string \<Rightarrow> string \<Rightarrow> nat \<Rightarrow> nat \<Rightarrow> nat" where
  "lev s t i 0 = i"
| "lev s t 0 j = j"
| "lev s t (Suc i) (Suc j) =
     (if s ! i = t ! j then lev s t i j
      else min (lev s t i j + 1) (min (lev s t i (Suc j) + 1) (lev s t (Suc i) j + 1)))"


section \<open>hotelService: distance and match score\<close>

text \<open>
  \<open>Math.round\<close> gives the nearest integer, the upper one of two that are equally
  near. The distance is \<open>NaN\<close> when the engine's \<open>a\<close> or \<open>1 - a\<close> is negative.
\<close>

definition mathRound :: "real \<Rightarrow> real" where
  "mathRound x = of_int \<lfloor>x + 1 / 2\<rfloor>"

definition calculateDistance :: "engine \<Rightarrow> real \<Rightarrow> real \<Rightarrow> real \<Rightarrow> real \<Rightarrow> jsnum" where
  "calculateDistance E lat1 lon1 lat2 lon2 =
     (let R = 6371000;
          phi1 = rd E (rd E (lat1 * mathPI E) / 180);
          phi2 = rd E (rd E (lat2 * mathPI E) / 180);
          dPhi = rd E (rd E (rd E (lat2 - lat1) * mathPI E) / 180);
          dLambda = rd E (rd E (rd E (lon2 - lon1) * mathPI E) / 180);
          a = rd E (rd E (mathSin E (rd E (dPhi / 2)) * mathSin E (rd E (dPhi / 2))) +
                    rd E (rd E (rd E (mathCos E phi1 * mathCos E phi2) *
                                mathSin E (rd E (dLambda / 2))) *
                          mathSin E (rd E (dLambda / 2))))
      in case (jsSqrt E a, jsSqrt E (rd E (1 - a))) of
           (Some y, Some x) \<Rightarrow> Some (mathRound (rd E (R * rd E (2 * mathAtan2 E y x))))
         | _ \<Rightarrow> None)"

record google_hotel =
  g_id :: string
  g_name :: string
  g_address :: string
  g_rating :: real
  g_latitude :: real
  g_longitude :: real
  g_photos :: "string list"
  g_types :: "string list"

record price_info =
  amount :: real
  currency :: string
  period :: string

record booking_hotel =
  b_id :: string
  b_name :: string
  b_address :: string
  b_rating :: real
  b_starRating :: real
  b_latitude :: real
  b_longitude :: real
  b_price :: price_info
  b_facilities :: "string list"
  b_policies :: "string list"
  b_rooms :: "string list"
  b_bookingUrl :: string

definition calculateMatchScore :: "engine \<Rightarrow> google_hotel \<Rightarrow> booking_hotel \<Rightarrow> jsnum" where
  "calculateMatchScore E googleHotel bookingHotel =
     (let nameSimilarity =
            map_option (\<lambda>s. rd E (s * (1 / 2)))
              (calculateStringSimilarity E (toLowerCase E (g_name googleHotel))
                 (toLowerCase E (b_name bookingHotel)));
          distance = calculateDistance E (g_latitude googleHotel) (g_longitude googleHotel)
                       (b_latitude bookingHotel) (b_longitude bookingHotel);
          distanceScore =
            map_option (\<lambda>d. rd E (max 0 (rd E (1 - rd E (d / 500))) * rd E (3 / 10))) distance;
          ratingSimilarity =
            (if g_rating googleHotel \<noteq> 0 \<and> b_rating bookingHotel \<noteq> 0
             then rd E (rd E (1 - rd E (\<bar>rd E (g_rating googleHotel - b_rating bookingHotel)\<bar> / 5)) *
                        rd E (2 / 10))
             else 0)
      in case (nameSimilarity, distanceScore) of
           (Some n, Some d) \<Rightarrow> Some (rd E (rd E (n + d) + ratingSimilarity))
         | _ \<Rightarrow> None)"

text \<open>
  \<open>Array.prototype.sort\<close> with a comparison function: the sort is stable, and a
  comparison that yields \<open>NaN\<close> counts as 0. An element moves behind a later one only
  when the comparison of the two is positive. A comparison function of the services
  is a difference of two numbers, of which the sort reads the sign; the rounded
  difference of two doubles has the sign of the exact one, which \<open>jsMinus\<close> gives.
\<close>

definition notAfter :: "('a \<Rightarrow> 'a \<Rightarrow> jsnum) \<Rightarrow> 'a \<Rightarrow> 'a \<Rightarrow> bool" where
  "notAfter cmp a b = (case cmp a b of None \<Rightarrow> True | Some v \<Rightarrow> v \<le> 0)"

fun insertSorted :: "('a \<Rightarrow> 'a \<Rightarrow> jsnum) \<Rightarrow> 'a \<Rightarrow> 'a list \<Rightarrow> 'a list" where
  "insertSorted cmp x [] = [x]"
| "insertSorted cmp x (y # ys) =
     (if notAfter cmp x y then x # y # ys else y # insertSorted cmp x ys)"

definition arraySort :: "('a \<Rightarrow> 'a \<Rightarrow> jsnum) \<Rightarrow> 'a list \<Rightarrow> 'a list" where
  "arraySort cmp xs = foldr (insertSorted cmp) xs []"

definition jsMinus :: "jsnum \<Rightarrow> jsnum \<Rightarrow> jsnum" where
  "jsMinus a b = (case (a, b) of (Some x, Some y) \<Rightarrow> Some (x - y) | _ \<Rightarrow> None)"

definition jsGreater :: "jsnum \<Rightarrow> real \<Rightarrow> bool" where
  \<comment> \<open>\<open>NaN > c\<close> is false\<close>
  "jsGreater a c = (case a of None \<Rightarrow> False | Some x \<Rightarrow> c < x)"

definition findBestBookingMatch ::
  "engine \<Rightarrow> google_hotel \<Rightarrow> booking_hotel list \<Rightarrow> booking_hotel option" where
  "findBestBookingMatch E googleHotel bookingHotels =
     (if bookingHotels = [] then None
      else case find (\<lambda>bh. toLowerCase E (b_name bh) = toLowerCase E (g_name googleHotel))
                  bookingHotels of
        Some exactMatch \<Rightarrow> Some exactMatch
      | None \<Rightarrow>
          (let matches = map (\<lambda>bh. (bh, calculateMatchScore E googleHotel bh)) bookingHotels;
               sorted = arraySort (\<lambda>a b. jsMinus (snd b) (snd a)) matches
           in case sorted of
                [] \<Rightarrow> None
              | best # _ \<Rightarrow>
                  if jsGreater (snd best) (rd E (7 / 10)) then Some (fst best) else None))"

section \<open>The cache (config/redis.js)\<close>

record enriched_hotel =
  base :: google_hotel
  price :: "price_info option"
  rooms :: "string list option"
  available :: bool
  bookingId :: "string option"
  bookingUrl :: "string option"
  facilities :: "string list option"
  policies :: "string list option"
  error :: "string option"

text \<open>
  The store keeps, for a key, the value and the time to live it was written with.
  \<open>isOpen\<close> stands for \<open>redisClient && redisClient.isOpen\<close>, \<open>defaultTTL\<close> for
  \<open>parseInt(process.env.CACHE_TTL) || 3600\<close>. An entry that has expired is not in
  \<open>entries\<close>.
\<close>

record redis =
  isOpen :: bool
  defaultTTL :: nat
  entries :: "string \<rightharpoonup> (enriched_hotel list \<times> nat)"

definition getCache :: "redis \<Rightarrow> string \<Rightarrow> enriched_hotel list option" where
  "getCache r key = (if \<not> isOpen r then None else map_option fst (entries r key))"

definition setCache :: "redis \<Rightarrow> string \<Rightarrow> enriched_hotel list \<Rightarrow> nat \<Rightarrow> redis" where
  "setCache r key v ttl =
     (if \<not> isOpen r then r
      else r\<lparr>entries := (entries r)(key \<mapsto> (v, if ttl \<noteq> 0 then ttl else defaultTTL r))\<rparr>)"

section \<open>hotelService: enrichHotelsWithPricing\<close>

definition digitChar :: "nat \<Rightarrow> char" where
  "digitChar d = char_of (48 + d)"

function showNat :: "nat \<Rightarrow> string" where
  "showNat n = (if n < 10 then [digitChar n] else showNat (n div 10) @ [digitChar (n mod 10)])"
  by pat_completeness auto
termination
  by (relation "measure (\<lambda>n. n)") auto

declare showNat.simps [simp del]

definition showInt :: "int \<Rightarrow> string" where
  "showInt i = (if i < 0 then CHR ''-'' # showNat (nat (- i)) else showNat (nat i))"

fun joinWith :: "string \<Rightarrow> string list \<Rightarrow> string" where
  "joinWith sep [] = []"
| "joinWith sep [x] = x"
| "joinWith sep (x # y # ys) = x @ sep @ joinWith sep (y # ys)"

record pricing_query =
  q_latitude :: real
  q_longitude :: real
  q_checkIn :: string
  q_checkOut :: string
  q_guests :: int

text \<open>
  \<open>searchBookingHotels\<close> belongs to the pricing provider: its answer to the \<open>k\<close>-th
  call of the run is \<open>pricing k query\<close>, \<open>Inl\<close> when the call throws. The
  state of a run holds the cache, the calls made to the two providers and the
  delays waited.
\<close>

type_synonym pricing_provider = "nat \<Rightarrow> pricing_query \<Rightarrow> string + booking_hotel list"

record world =
  cache :: redis
  pricingCalls :: "pricing_query list"
  googleCalls :: "(real \<times> real) list"
  timeouts :: "nat list"

definition BATCH_SIZE :: nat where
  "BATCH_SIZE = 10"

definition cacheKey :: "string \<Rightarrow> string \<Rightarrow> int \<Rightarrow> google_hotel list \<Rightarrow> string" where
  "cacheKey checkIn checkOut guests hotels =
     ''hotel-pricing:'' @ checkIn @ '':'' @ checkOut @ '':'' @ showInt guests @ '':'' @
     joinWith '','' (map g_id hotels)"

definition matchedHotel :: "google_hotel \<Rightarrow> booking_hotel \<Rightarrow> enriched_hotel" where
  "matchedHotel googleHotel bookingMatch =
     \<lparr>base = googleHotel,
      price = Some (b_price bookingMatch),
      rooms = Some (b_rooms bookingMatch),
      available = True,
      bookingId = Some (b_id bookingMatch),
      bookingUrl = Some (b_bookingUrl bookingMatch),
      facilities = Some (b_facilities bookingMatch),
      policies = Some (b_policies bookingMatch),
      error = None\<rparr>"

definition unmatchedHotel :: "google_hotel \<Rightarrow> enriched_hotel" where
  "unmatchedHotel googleHotel =
     \<lparr>base = googleHotel, price = None, rooms = None, available = False,
      bookingId = None, bookingUrl = None, facilities = None, policies = None,
      error = None\<rparr>"

definition failedHotel :: "google_hotel \<Rightarrow> enriched_hotel" where
  "failedHotel hotel =
     \<lparr>base = hotel, price = None, rooms = None, available = False,
      bookingId = None, bookingUrl = None, facilities = None, policies = None,
      error = Some ''Failed to fetch pricing''\<rparr>"

definition enrichOne :: "engine \<Rightarrow> booking_hotel list \<Rightarrow> google_hotel \<Rightarrow> enriched_hotel" where
  \<comment> \<open>the body of \<open>for (const googleHotel of batch)\<close>\<close>
  "enrichOne E bookingResults googleHotel =
     (case findBestBookingMatch E googleHotel bookingResults of
        Some bookingMatch \<Rightarrow> matchedHotel googleHotel bookingMatch
      | None \<Rightarrow> unmatchedHotel googleHotel)"

definition batchQuery :: "google_hotel list \<Rightarrow> string \<Rightarrow> string \<Rightarrow> int \<Rightarrow> pricing_query" where
  "batchQuery batch checkIn checkOut guests =
     \<lparr>q_latitude = g_latitude (batch ! 0), q_longitude = g_longitude (batch ! 0),
      q_checkIn = checkIn, q_checkOut = checkOut, q_guests = guests\<rparr>"

function enrichBatches ::
  "engine \<Rightarrow> pricing_provider \<Rightarrow> string \<Rightarrow> string \<Rightarrow> int \<Rightarrow> google_hotel list \<Rightarrow> nat \<Rightarrow>
   enriched_hotel list \<Rightarrow> world \<Rightarrow> enriched_hotel list \<times> world" where
  "enrichBatches E pricing checkIn checkOut guests hotels i enrichedHotels w =
     (if i < length hotels then
        (let batch = take BATCH_SIZE (drop i hotels);
             query = batchQuery batch checkIn checkOut guests;
             w1 = w\<lparr>pricingCalls := pricingCalls w @ [query]\<rparr>;
             enrichedHotels1 =
               (case pricing (length (pricingCalls w)) query of
                  Inr bookingResults \<Rightarrow> enrichedHotels @ map (enrichOne E bookingResults) batch
                | Inl err \<Rightarrow> enrichedHotels @ map failedHotel batch);
             w2 = (if i + BATCH_SIZE < length hotels
                   then w1\<lparr>timeouts := timeouts w1 @ [1000]\<rparr> else w1)
         in enrichBatches E pricing checkIn checkOut guests hotels (i + BATCH_SIZE)
              enrichedHotels1 w2)
      else (enrichedHotels, w))"
  by pat_completeness auto
termination
  by (relation "measure (\<lambda>(E, pricing, checkIn, checkOut, guests, hotels, i, acc, w). length hotels - i)")
     (auto simp: BATCH_SIZE_def)

declare enrichBatches.simps [simp del]

definition enrichHotelsWithPricing ::
  "engine \<Rightarrow> pricing_provider \<Rightarrow> google_hotel list \<Rightarrow> string \<Rightarrow> string \<Rightarrow> int \<Rightarrow> world \<Rightarrow>
   enriched_hotel list \<times> world" where
  "enrichHotelsWithPricing E pricing hotels checkIn checkOut guests w =
     (let key = cacheKey checkIn checkOut guests hotels
      in case getCache (cache w) key of
           Some cached \<Rightarrow> (cached, w)
         | None \<Rightarrow>
             (let (enrichedHotels, w1) =
                    enrichBatches E pricing checkIn checkOut guests hotels 0 [] w
              in (enrichedHotels,
                  w1\<lparr>cache := setCache (cache w1) key enrichedHotels 1800\<rparr>)))"

section \<open>hotelService: searchHotels\<close>

text \<open>
  The argument \<open>guests\<close> may be any value: \<open>undefined\<close>, \<open>null\<close>, a number, a
  string, or a value of another type, which \<open>Other\<close> gives by the string it converts
  to. \<open>parseInt\<close> turns its argument into a string first. \<open>undefined\<close>, \<open>null\<close> and
  \<open>NaN\<close> give no digits. An integer below \<open>10^21\<close> in absolute value prints in plain
  decimal notation and parses back to itself; any other number prints as the engine
  has it (from \<open>10^21\<close> on in exponent notation) and the string is parsed. In a string,
  \<open>parseInt\<close> skips the leading white space of the engine, reads a sign and a \<open>0x\<close>
  prefix, then the longest run of digits of the radix. The result is kept as an
  integer: the guest count is only tested for being 0 and compared with 1 and 10,
  and it is printed only when it lies between 1 and 10.
\<close>

datatype js_value = Undefined | Null | Number jsnum | String string | Other string

definition digitValue :: "char \<Rightarrow> nat option" where
  "digitValue c =
     (let k = (of_char c :: nat)
      in if 48 \<le> k \<and> k \<le> 57 then Some (k - 48)
         else if 97 \<le> k \<and> k \<le> 122 then Some (k - 87)
         else if 65 \<le> k \<and> k \<le> 90 then Some (k - 55)
         else None)"

definition isRadixDigit :: "nat \<Rightarrow> char \<Rightarrow> bool" where
  "isRadixDigit radix c = (case digitValue c of None \<Rightarrow> False | Some d \<Rightarrow> d < radix)"

definition digitsValue :: "nat \<Rightarrow> string \<Rightarrow> nat" where
  "digitsValue radix ds = foldl (\<lambda>acc c. acc * radix + (case digitValue c of None \<Rightarrow> 0 | Some d \<Rightarrow> d)) 0 ds"

definition parseIntString :: "engine \<Rightarrow> string \<Rightarrow> int option" where
  "parseIntString E str =
     (let s1 = dropWhile (strWhiteSpace E) str;
          negative = (s1 \<noteq> [] \<and> hd s1 = CHR ''-'');
          s2 = (if s1 \<noteq> [] \<and> (hd s1 = CHR ''-'' \<or> hd s1 = CHR ''+'') then tl s1 else s1);
          hex = (take 2 s2 = ''0x'' \<or> take 2 s2 = ''0X'');
          radix = (if hex then 16 else 10);
          s3 = (if hex then drop 2 s2 else s2);
          ds = takeWhile (isRadixDigit radix) s3
      in if ds = [] then None
         else Some ((if negative then - 1 else 1) * int (digitsValue radix ds)))"

fun parseInt :: "engine \<Rightarrow> js_value \<Rightarrow> int option" where
  "parseInt E Undefined = None"
| "parseInt E Null = None"
| "parseInt E (Number None) = None"
| "parseInt E (Number (Some x)) =
     (if x = of_int \<lfloor>x\<rfloor> \<and> \<bar>x\<bar> < 10 ^ 21 then Some \<lfloor>x\<rfloor>
      else parseIntString E (numberToString E x))"
| "parseInt E (String str) = parseIntString E str"
| "parseInt E (Other str) = parseIntString E str"

record search_args =
  latitude :: jsnum
  longitude :: jsnum
  checkIn :: "string option"
  checkOut :: "string option"
  guests :: js_value

datatype search_error =
    Error string
  | APIError string nat string
  | FetchError string

record place =
  place_id :: string
  p_name :: string
  vicinity :: string
  p_rating :: "real option"
  p_lat :: real
  p_lng :: real
  p_photos :: "string list option"
  p_types :: "string list"

text \<open>
  What the discovery provider answers to the one request of a search: the fetch
  fails, or the response is not ok, or it carries a body with a status, the
  results and an error message.
\<close>

datatype google_reply =
    FetchRejected string
  | HttpStatus nat
  | Body string "place list" "string option"

type_synonym google_provider = "real \<Rightarrow> real \<Rightarrow> google_reply"

record search_metadata =
  total :: nat
  m_available :: nat
  m_unavailable :: nat
  withPricing :: nat

record search_result =
  hotels :: "enriched_hotel list"
  metadata :: search_metadata

definition truthyNumber :: "jsnum \<Rightarrow> bool" where
  "truthyNumber v = (case v of None \<Rightarrow> False | Some x \<Rightarrow> x \<noteq> 0)"

definition truthyString :: "string option \<Rightarrow> bool" where
  "truthyString v = (case v of None \<Rightarrow> False | Some x \<Rightarrow> x \<noteq> [])"

definition toGoogleHotel :: "place \<Rightarrow> google_hotel" where
  "toGoogleHotel pl =
     \<lparr>g_id = place_id pl,
      g_name = p_name pl,
      g_address = vicinity pl,
      g_rating = (case p_rating pl of None \<Rightarrow> 0 | Some r \<Rightarrow> r),
      g_latitude = p_lat pl,
      g_longitude = p_lng pl,
      g_photos = (case p_photos pl of None \<Rightarrow> [] | Some ps \<Rightarrow> ps),
      g_types = p_types pl\<rparr>"

definition priceAmount :: "enriched_hotel \<Rightarrow> jsnum" where
  \<comment> \<open>\<open>h.price?.amount\<close>\<close>
  "priceAmount h = map_option amount (price h)"

definition compareHotels :: "enriched_hotel \<Rightarrow> enriched_hotel \<Rightarrow> jsnum" where
  "compareHotels a b =
     (if available a \<noteq> available b then (if available a then Some (- 1) else Some 1)
      else if truthyNumber (priceAmount a) \<and> truthyNumber (priceAmount b)
        then jsMinus (priceAmount a) (priceAmount b)
      else if truthyNumber (priceAmount a) then Some (- 1)
      else if truthyNumber (priceAmount b) then Some 1
      else Some (g_rating (base b) - g_rating (base a)))"

definition makeResult :: "enriched_hotel list \<Rightarrow> search_result" where
  "makeResult sortedHotels =
     \<lparr>hotels = sortedHotels,
      metadata =
        \<lparr>total = length sortedHotels,
         m_available = length (filter available sortedHotels),
         m_unavailable = length (filter (\<lambda>h. \<not> available h) sortedHotels),
         withPricing = length (filter (\<lambda>h. jsGreater (priceAmount h) 0) sortedHotels)\<rparr>\<rparr>"

definition showStatus :: "string \<Rightarrow> string option \<Rightarrow> string" where
  \<comment> \<open>\<open>data.error_message || data.status\<close>\<close>
  "showStatus status error_message =
     (case error_message of None \<Rightarrow> status | Some m \<Rightarrow> if m = [] then status else m)"

definition runSearch ::
  "engine \<Rightarrow> google_provider \<Rightarrow> pricing_provider \<Rightarrow> real \<Rightarrow> real \<Rightarrow> string \<Rightarrow> string \<Rightarrow> int \<Rightarrow>
   world \<Rightarrow> (search_error + search_result) \<times> world" where
  \<comment> \<open>the \<open>try\<close> block of \<open>searchHotels\<close>; its \<open>catch\<close> throws the error again\<close>
  "runSearch E google pricing lat lng ci co guestCount w =
     (let w1 = w\<lparr>googleCalls := googleCalls w @ [(lat, lng)]\<rparr>
      in case google lat lng of
           FetchRejected msg \<Rightarrow> (Inl (FetchError msg), w1)
         | HttpStatus status \<Rightarrow>
             (Inl (APIError (''Google Places API error: '' @ showNat status) status ''google''), w1)
         | Body status results error_message \<Rightarrow>
             if status \<noteq> ''OK''
             then (Inl (APIError (''Failed to fetch hotels: '' @ showStatus status error_message)
                          500 ''google''), w1)
             else
               (let googleHotels = map toGoogleHotel results;
                    (enrichedHotels, w2) =
                      enrichHotelsWithPricing E pricing googleHotels ci co guestCount w1;
                    sortedHotels = arraySort compareHotels enrichedHotels
                in (Inr (makeResult sortedHotels), w2)))"

definition guestCountOf :: "engine \<Rightarrow> js_value \<Rightarrow> int" where
  \<comment> \<open>\<open>parseInt(guests) || 2\<close>\<close>
  "guestCountOf E v = (case parseInt E v of None \<Rightarrow> 2 | Some n \<Rightarrow> if n = 0 then 2 else n)"

text \<open>
  Past the two checks the coordinates are numbers and the dates are strings, which
  \<open>the\<close> reads.
\<close>

definition searchHotels ::
  "engine \<Rightarrow> google_provider \<Rightarrow> pricing_provider \<Rightarrow> search_args \<Rightarrow> world \<Rightarrow>
   (search_error + search_result) \<times> world" where
  "searchHotels E google pricing args w =
     (if \<not> truthyNumber (latitude args) \<or> \<not> truthyNumber (longitude args)
      then (Inl (Error ''Invalid coordinates provided''), w)
      else if \<not> truthyString (checkIn args) \<or> \<not> truthyString (checkOut args)
      then (Inl (Error ''Check-in and check-out dates are required''), w)
      else
        (let guestCount = guestCountOf E (guests args)
         in if guestCount < 1 \<or> guestCount > 10
            then (Inl (Error ''Guest count must be between 1 and 10''), w)
            else runSearch E google pricing (the (latitude args)) (the (longitude args))
                   (the (checkIn args)) (the (checkOut args)) guestCount w))"

section \<open>Calls to the providers, with retries\<close>

text \<open>
  The network answers the \<open>k\<close>-th fetch of a call with \<open>net k\<close>. \<open>fetches\<close> counts
  the fetches made, \<open>delays\<close> lists the waits in milliseconds, in order.
\<close>

record net_io =
  fetches :: nat
  delays :: "nat list"

definition responseOk :: "nat \<Rightarrow> bool" where
  "responseOk status = (200 \<le> status \<and> status \<le> 299)"

subsection \<open>bookingService: makeBookingAPIRequest\<close>

record booking_body =
  bb_message :: "string option"
  bb_code :: "string option"
  bb_data :: "string list"

text \<open>The body is \<open>Inl\<close> when \<open>response.json()\<close> fails.\<close>

datatype booking_reply =
    BookingFetchRejected string
  | BookingResponse nat "string + booking_body"

datatype booking_error = BookingAPIError string nat "string option"

definition MAX_RETRIES :: nat where
  "MAX_RETRIES = 3"

definition RETRY_DELAY :: nat where
  "RETRY_DELAY = 1000"

definition connectionError :: booking_error where
  "connectionError =
     BookingAPIError ''Failed to connect to Booking.com API'' 500 (Some ''CONNECTION_ERROR'')"

definition messageOr :: "string option \<Rightarrow> string \<Rightarrow> string" where
  "messageOr m d = (case m of None \<Rightarrow> d | Some x \<Rightarrow> if x = [] then d else x)"

function makeBookingAPIRequest ::
  "(nat \<Rightarrow> booking_reply) \<Rightarrow> nat \<Rightarrow> net_io \<Rightarrow> (booking_error + booking_body) \<times> net_io" where
  "makeBookingAPIRequest net retryCount io =
     (let io1 = io\<lparr>fetches := fetches io + 1\<rparr>
      in case net (fetches io) of
           BookingFetchRejected msg \<Rightarrow> (Inl connectionError, io1)
         | BookingResponse status body \<Rightarrow>
             (case body of
                Inl msg \<Rightarrow> (Inl connectionError, io1)
              | Inr data \<Rightarrow>
                  if \<not> responseOk status then
                    (if status = 429 \<and> retryCount < MAX_RETRIES
                     then makeBookingAPIRequest net (retryCount + 1)
                            (io1\<lparr>delays := delays io1 @ [RETRY_DELAY * 2 ^ retryCount]\<rparr>)
                     else (Inl (BookingAPIError
                                  (messageOr (bb_message data) ''Booking.com API request failed'')
                                  status (bb_code data)), io1))
                  else (Inr data, io1)))"
  by pat_completeness auto
termination
  by (relation "measure (\<lambda>(net, retryCount, io). MAX_RETRIES - retryCount)") auto

declare makeBookingAPIRequest.simps [simp del]

subsection \<open>geocodingService: callGoogleGeocodingAPI\<close>

record geo_result =
  r_lat :: real
  r_lng :: real
  r_formatted_address :: string
  r_place_id :: string

record geo_body =
  gb_status :: string
  gb_results :: "geo_result list"

datatype geo_reply =
    GeoFetchRejected string
  | GeoResponse nat "string + geo_body"

datatype geo_error =
    GeocodingError string nat
  | ThrownError string

definition maxRetries :: nat where
  "maxRetries = 3"

definition readGeoBody :: "geo_body \<Rightarrow> geo_error + geo_result option" where
  "readGeoBody data =
     (if gb_status data = ''OK'' \<and> gb_results data \<noteq> [] then Inr (Some (gb_results data ! 0))
      else if gb_status data = ''ZERO_RESULTS'' then Inr None
      else if gb_status data = ''OVER_QUERY_LIMIT''
        then Inl (GeocodingError ''Google Geocoding quota exceeded'' 429)
      else if gb_status data = ''REQUEST_DENIED''
        then Inl (GeocodingError ''Google Geocoding API access denied'' 403)
      else if gb_status data = ''INVALID_REQUEST''
        then Inl (GeocodingError ''Invalid geocoding request'' 400)
      else Inl (GeocodingError (''Geocoding failed: '' @ gb_status data) 500))"

function geocodeAttempts ::
  "(nat \<Rightarrow> geo_reply) \<Rightarrow> nat \<Rightarrow> geo_error option \<Rightarrow> net_io \<Rightarrow>
   (geo_error + geo_result option) \<times> net_io" where
  "geocodeAttempts net attempt lastError io =
     (if attempt \<le> maxRetries then
        (let io1 = io\<lparr>fetches := fetches io + 1\<rparr>
         in case net (fetches io) of
              GeoFetchRejected msg \<Rightarrow>
                if attempt = maxRetries then (Inl (ThrownError msg), io1)
                else geocodeAttempts net (attempt + 1) (Some (ThrownError msg))
                       (io1\<lparr>delays := delays io1 @ [2 ^ attempt * 1000]\<rparr>)
            | GeoResponse status body \<Rightarrow>
                if \<not> responseOk status then
                  (if status = 429
                   then geocodeAttempts net (attempt + 1) lastError
                          (io1\<lparr>delays := delays io1 @ [2 ^ attempt * 1000]\<rparr>)
                   else (Inl (GeocodingError (''Google Geocoding API HTTP '' @ showNat status)
                                status), io1))
                else
                  (case body of
                     Inl msg \<Rightarrow>
                       if attempt = maxRetries then (Inl (ThrownError msg), io1)
                       else geocodeAttempts net (attempt + 1) (Some (ThrownError msg))
                              (io1\<lparr>delays := delays io1 @ [2 ^ attempt * 1000]\<rparr>)
                   | Inr data \<Rightarrow> (readGeoBody data, io1)))
      else
        (case lastError of
           Some e \<Rightarrow> (Inl e, io)
         | None \<Rightarrow> (Inl (GeocodingError ''Geocoding service unavailable after retries'' 500), io)))"
  by pat_completeness auto
termination
  by (relation "measure (\<lambda>(net, attempt, lastError, io). Suc maxRetries - attempt)") auto

declare geocodeAttempts.simps [simp del]

definition callGoogleGeocodingAPI ::
  "bool \<Rightarrow> (nat \<Rightarrow> geo_reply) \<Rightarrow> net_io \<Rightarrow> (geo_error + geo_result option) \<times> net_io" where
  \<comment> \<open>the flag says whether \<open>process.env.GOOGLE_GEOCODING_API_KEY\<close> is set\<close>
  "callGoogleGeocodingAPI keyConfigured net io =
     (if \<not> keyConfigured
      then (Inl (GeocodingError ''Google Geocoding API key not configured'' 500), io)
      else geocodeAttempts net 1 None io)"

section \<open>metricsService\<close>

record api_metrics =
  requests :: nat
  errors :: nat
  totalTime :: nat
  lastError :: "(string \<times> string) option"
  lastSuccess :: "string option"

record metrics_state =
  apiMetrics :: "string \<rightharpoonup> api_metrics"
  responseTimes :: "string \<rightharpoonup> nat list"
  totalRequests :: nat
  totalErrors :: nat

text \<open>
  What the wrapped call does: it returns after some milliseconds, or throws a message
  after some. The third component is the time stamp taken then.
\<close>

datatype call_outcome = Returned nat string | Threw nat string string

definition newMetrics :: api_metrics where
  "newMetrics = \<lparr>requests = 0, errors = 0, totalTime = 0, lastError = None, lastSuccess = None\<rparr>"

definition pushRecent :: "nat list \<Rightarrow> nat \<Rightarrow> nat list" where
  \<comment> \<open>\<open>push\<close>, then \<open>shift\<close> when more than 100 are kept\<close>
  "pushRecent recentTimes t =
     (let ts = recentTimes @ [t] in if length ts > 100 then tl ts else ts)"

definition trackAPICall :: "string \<Rightarrow> call_outcome \<Rightarrow> metrics_state \<Rightarrow> metrics_state" where
  "trackAPICall provider outcome st =
     (let m0 = (case apiMetrics st provider of None \<Rightarrow> newMetrics | Some m \<Rightarrow> m);
          m1 = m0\<lparr>requests := requests m0 + 1\<rparr>;
          st1 = st\<lparr>totalRequests := totalRequests st + 1\<rparr>
      in case outcome of
           Returned elapsed stamp \<Rightarrow>
             (let m2 = m1\<lparr>totalTime := totalTime m1 + elapsed, lastSuccess := Some stamp\<rparr>;
                  recentTimes = (case responseTimes st1 provider of None \<Rightarrow> [] | Some ts \<Rightarrow> ts)
              in st1\<lparr>apiMetrics := (apiMetrics st1)(provider \<mapsto> m2),
                     responseTimes :=
                       (responseTimes st1)(provider \<mapsto> pushRecent recentTimes elapsed)\<rparr>)
         | Threw elapsed stamp message \<Rightarrow>
             (let m2 = m1\<lparr>errors := errors m1 + 1, totalTime := totalTime m1 + elapsed,
                           lastError := Some (stamp, message)\<rparr>
              in st1\<lparr>apiMetrics := (apiMetrics st1)(provider \<mapsto> m2),
                     totalErrors := totalErrors st1 + 1\<rparr>))"

text \<open>
  Every metrics object is made with the five properties of \<open>api_metrics\<close> and no
  other is ever assigned, so reading \<open>metrics.errorRate\<close> gives \<open>undefined\<close>; the
  comparison of \<open>undefined\<close> with a number is false, as that of \<open>NaN\<close>.
\<close>

definition errorRateProperty :: "api_metrics \<Rightarrow> jsnum" where
  "errorRateProperty metrics = None"

record health =
  h_status :: string
  h_errorRate :: real
  h_averageResponseTime :: real
  h_lastSuccess :: "string option"
  h_lastError :: "(string \<times> string) option"

definition recentAverageOf :: "nat list \<Rightarrow> real" where
  "recentAverageOf recentTimes =
     (if length recentTimes > 0 then real (sum_list recentTimes) / real (length recentTimes) else 0)"

definition healthOf :: "api_metrics \<Rightarrow> nat list \<Rightarrow> health" where
  \<comment> \<open>the body of the loop of \<open>getAPIHealthStatus\<close>\<close>
  "healthOf metrics recentTimes =
     (let recentAverage = recentAverageOf recentTimes;
          st = (if requests metrics = 0 then ''unknown''
                else if jsGreater (errorRateProperty metrics) 50 then ''critical''
                else if jsGreater (errorRateProperty metrics) 20 \<or> recentAverage > 10000
                  then ''degraded''
                else ''healthy'')
      in \<lparr>h_status = st,
          h_errorRate = (if requests metrics > 0
                       then mathRound (real (errors metrics) / real (requests metrics) * 100)
                       else 0),
          h_averageResponseTime = mathRound recentAverage,
          h_lastSuccess = lastSuccess metrics,
          h_lastError = lastError metrics\<rparr>)"

definition getAPIHealthStatus :: "metrics_state \<Rightarrow> (string \<rightharpoonup> health)" where
  "getAPIHealthStatus st =
     (\<lambda>provider. case apiMetrics st provider of
        None \<Rightarrow> None
      | Some metrics \<Rightarrow>
          Some (healthOf metrics
                  (case responseTimes st provider of None \<Rightarrow> [] | Some ts \<Rightarrow> ts)))"

section \<open>The match score in the words of the specification\<close>

definition nameSimilarity :: "string \<Rightarrow> string \<Rightarrow> real" where
  \<comment> \<open>1 minus the edit distance, normalised by the longer length\<close>
  "nameSimilarity s t =
     1 - real (lev s t (length s) (length t)) / real (max (length s) (length t))"

definition radians :: "real \<Rightarrow> real" where
  "radians x = x * pi / 180"

definition haversineMeters :: "real \<Rightarrow> real \<Rightarrow> real \<Rightarrow> real \<Rightarrow> real" where
  \<comment> \<open>the great-circle distance by the haversine formula, on a sphere of radius 6371000 m\<close>
  "haversineMeters lat1 lon1 lat2 lon2 =
     2 * 6371000 *
     arcsin (sqrt ((sin ((radians lat2 - radians lat1) / 2))\<^sup>2 +
                   cos (radians lat1) * cos (radians lat2) *
                   (sin ((radians lon2 - radians lon1) / 2))\<^sup>2))"

definition ratingSimilarity :: "google_hotel \<Rightarrow> booking_hotel \<Rightarrow> real" where
  "ratingSimilarity d p =
     (if g_rating d \<noteq> 0 \<and> b_rating p \<noteq> 0 then 1 - \<bar>g_rating d - b_rating p\<bar> / 5 else 0)"

definition claimedScore :: "(string \<Rightarrow> string) \<Rightarrow> google_hotel \<Rightarrow> booking_hotel \<Rightarrow> real" where
  \<comment> \<open>the score as the specification states it, on the distance in metres\<close>
  "claimedScore lower d p =
     5 / 10 * nameSimilarity (lower (g_name d)) (lower (b_name p)) +
     3 / 10 * max 0 (1 - haversineMeters (g_latitude d) (g_longitude d)
                            (b_latitude p) (b_longitude p) / 500) +
     2 / 10 * ratingSimilarity d p"

definition weightedScore :: "(string \<Rightarrow> string) \<Rightarrow> google_hotel \<Rightarrow> booking_hotel \<Rightarrow> real" where
  \<comment> \<open>the same on the distance rounded to whole metres, as the code has it\<close>
  "weightedScore lower d p =
     5 / 10 * nameSimilarity (lower (g_name d)) (lower (b_name p)) +
     3 / 10 * max 0 (1 - mathRound (haversineMeters (g_latitude d) (g_longitude d)
                                      (b_latitude p) (b_longitude p)) / 500) +
     2 / 10 * ratingSimilarity d p"

section \<open>Exact arithmetic\<close>

text \<open>
  The engine that does not round: its sums and products are exact and its \<open>Math\<close>
  functions are those of the reals.
\<close>

definition exactAtan2 :: "real \<Rightarrow> real \<Rightarrow> real" where
  "exactAtan2 y x =
     (if 0 < x then arctan (y / x)
      else if x < 0 \<and> 0 \<le> y then arctan (y / x) + pi
      else if x < 0 \<and> y < 0 then arctan (y / x) - pi
      else if 0 < y then pi / 2
      else if y < 0 then - pi / 2
      else 0)"

definition exactArithmetic :: "engine \<Rightarrow> engine" where
  "exactArithmetic E =
     E\<lparr>roundNearest := Abs_rounding (\<lambda>x. x), mathPI := pi, mathSin := sin, mathCos := cos,
       mathSqrt := sqrt, mathAtan2 := exactAtan2\<rparr>"

section \<open>Notions used in the proofs\<close>

definition rowsDone :: "string \<Rightarrow> string \<Rightarrow> nat \<Rightarrow> table \<Rightarrow> bool" where
  \<comment> \<open>the first column is set and the rows up to \<open>k\<close> hold the recurrence\<close>
  "rowsDone s t k dp \<longleftrightarrow>
     (\<forall>i\<le>length s. dp i 0 = i) \<and> (\<forall>i\<le>k. \<forall>j\<le>length t. dp i j = lev s t i j)"

definition havA :: "real \<Rightarrow> real \<Rightarrow> real \<Rightarrow> real \<Rightarrow> real" where
  \<comment> \<open>the term \<open>a\<close> of \<open>calculateDistance\<close> in exact arithmetic\<close>
  "havA lat1 lon1 lat2 lon2 =
     sin ((lat2 - lat1) * pi / 180 / 2) * sin ((lat2 - lat1) * pi / 180 / 2) +
     cos (lat1 * pi / 180) * cos (lat2 * pi / 180) *
       sin ((lon2 - lon1) * pi / 180 / 2) * sin ((lon2 - lon1) * pi / 180 / 2)"

definition batchEntry ::
  "engine \<Rightarrow> pricing_provider \<Rightarrow> string \<Rightarrow> string \<Rightarrow> int \<Rightarrow> nat \<Rightarrow> google_hotel list \<Rightarrow>
   google_hotel \<Rightarrow> enriched_hotel" where
  \<comment> \<open>what one batch pushes for one of its hotels, in the \<open>try\<close> or in the \<open>catch\<close>\<close>
  "batchEntry E pricing ci co g callNo batch h =
     (case pricing callNo (batchQuery batch ci co g) of
        Inr bookingResults \<Rightarrow> enrichOne E bookingResults h
      | Inl err \<Rightarrow> failedHotel h)"

definition entryAt ::
  "engine \<Rightarrow> pricing_provider \<Rightarrow> string \<Rightarrow> string \<Rightarrow> int \<Rightarrow> nat \<Rightarrow> google_hotel list \<Rightarrow> nat \<Rightarrow>
   enriched_hotel" where
  "entryAt E P ci co g c0 hs j =
     batchEntry E P ci co g (c0 + j div BATCH_SIZE)
       (take BATCH_SIZE (drop (BATCH_SIZE * (j div BATCH_SIZE)) hs)) (hs ! j)"

definition hasPrice :: "enriched_hotel \<Rightarrow> bool" where
  \<comment> \<open>\<open>h.price?.amount\<close> is truthy: there is a price and its amount is not 0\<close>
  "hasPrice h = truthyNumber (priceAmount h)"

definition amountOf :: "enriched_hotel \<Rightarrow> real" where
  "amountOf h = (case price h of None \<Rightarrow> 0 | Some p \<Rightarrow> amount p)"




section \<open>Example data\<close>

text \<open>
  The examples run on an engine with exact arithmetic that lowercases the letters
  \<open>A\<close> to \<open>Z\<close> and skips the white space of Latin-1. Its numbers print as their
  integer part; the examples pass integers below \<open>10^21\<close> only, whose printing is
  not asked for.
\<close>

definition lowerChar :: "char \<Rightarrow> char" where
  "lowerChar c =
     (if (65::nat) \<le> of_char c \<and> (of_char c :: nat) \<le> 90
      then char_of ((of_char c :: nat) + 32) else c)"

definition exWhiteSpace :: "char \<Rightarrow> bool" where
  "exWhiteSpace c = ((of_char c :: nat) \<in> {9, 10, 11, 12, 13, 32, 160})"

definition exEngine :: engine where
  "exEngine =
     \<lparr>toLowerCase = map lowerChar, strWhiteSpace = exWhiteSpace,
      numberToString = (\<lambda>x. showInt \<lfloor>x\<rfloor>),
      roundNearest = Abs_rounding (\<lambda>x. x), mathPI = pi, mathSin = sin, mathCos = cos,
      mathSqrt = sqrt, mathAtan2 = exactAtan2\<rparr>"

definition exPlace :: "string \<Rightarrow> string \<Rightarrow> string \<Rightarrow> real \<Rightarrow> place" where
  "exPlace pid nm addr r =
     \<lparr>place_id = pid, p_name = nm, vicinity = addr, p_rating = Some r,
      p_lat = 1, p_lng = 1, p_photos = None, p_types = [''lodging'']\<rparr>"

definition exOffer :: "string \<Rightarrow> string \<Rightarrow> real \<Rightarrow> booking_hotel" where
  "exOffer bid nm amt =
     \<lparr>b_id = bid, b_name = nm, b_address = [], b_rating = 4, b_starRating = 0,
      b_latitude = 1, b_longitude = 1,
      b_price = \<lparr>amount = amt, currency = ''USD'', period = ''per night''\<rparr>,
      b_facilities = [], b_policies = [], b_rooms = [], b_bookingUrl = []\<rparr>"

definition exOrigin :: google_hotel where
  "exOrigin =
     \<lparr>g_id = ''o'', g_name = ''ab'', g_address = ''1 Main St'', g_rating = 4,
      g_latitude = 0, g_longitude = 0, g_photos = [], g_types = [''lodging'']\<rparr>"

definition exNear :: booking_hotel where
  \<comment> \<open>a millionth of a degree of longitude east of \<open>exOrigin\<close>: some 0.11 m\<close>
  "exNear =
     \<lparr>b_id = ''n'', b_name = ''ax'', b_address = [], b_rating = 2751 / 1000, b_starRating = 0,
      b_latitude = 0, b_longitude = 1 / 1000000,
      b_price = \<lparr>amount = 100, currency = ''USD'', period = ''per night''\<rparr>,
      b_facilities = [], b_policies = [], b_rooms = [], b_bookingUrl = []\<rparr>"

definition exArgs :: "js_value \<Rightarrow> search_args" where
  "exArgs g = \<lparr>latitude = Some 1, longitude = Some 1, checkIn = Some ''2025-01-01'',
               checkOut = Some ''2025-01-02'', guests = g\<rparr>"

definition exWorld :: world where
  "exWorld = \<lparr>cache = \<lparr>isOpen = True, defaultTTL = 3600, entries = Map.empty\<rparr>,
              pricingCalls = [], googleCalls = [], timeouts = []\<rparr>"

definition exGeoBody :: geo_body where
  "exGeoBody = \<lparr>gb_status = ''ZERO_RESULTS'', gb_results = []\<rparr>"

definition exBookingBody :: booking_body where
  "exBookingBody = \<lparr>bb_message = None, bb_code = None, bb_data = []\<rparr>"

definition exIo :: net_io where
  "exIo = \<lparr>fetches = 0, delays = []\<rparr>"

definition initialMetrics :: metrics_state where
  \<comment> \<open>the state the metrics module starts with\<close>
  "initialMetrics =
     \<lparr>apiMetrics = [''tbo'' \<mapsto> newMetrics, ''webbeds'' \<mapsto> newMetrics,
                    ''google_geocoding'' \<mapsto> newMetrics, ''google_reverse_geocoding'' \<mapsto> newMetrics,
                    ''booking'' \<mapsto> newMetrics],
      responseTimes = Map.empty, totalRequests = 0, totalErrors = 0\<rparr>"

section \<open>The similarity table\<close>

lemma lev_0_left [simp]: "lev s t 0 j = j"
  by (cases j) simp_all

lemma lev_sym: "lev s t i j = lev t s j i"
  by (induction s t i j rule: lev.induct) (auto simp: min.commute eq_commute)

lemma lev_refl: "lev s s i i = 0"
  by (induction i) simp_all

lemma setCell_apply: "setCell dp i j v a b = (if a = i \<and> b = j then v else dp a b)"
  by (simp add: setCell_def)

lemma initColumn_fold:
  "fold (\<lambda>i dp. setCell dp i 0 i) [0..<k] dp a b = (if b = 0 \<and> a < k then a else dp a b)"
  by (induction k arbitrary: a b) (auto simp: setCell_apply)

lemma initRow_fold:
  "fold (\<lambda>j dp. setCell dp 0 j j) [0..<k] dp a b = (if a = 0 \<and> b < k then b else dp a b)"
  by (induction k arbitrary: a b) (auto simp: setCell_apply)

lemma initial_table:
  "initRow n (initColumn m (\<lambda>_ _. 0)) a b =
     (if a = 0 \<and> b \<le> n then b else if b = 0 \<and> a \<le> m then a else 0)"
  unfolding initRow_def initColumn_def initRow_fold initColumn_fold by auto

lemma cells_fold:
  assumes "rowsDone s t k dp" "l \<le> length t" "k < length s"
  shows "rowsDone s t k (fold (cellStep s t (Suc k)) [1..<Suc l] dp) \<and>
         (\<forall>j\<le>l. fold (cellStep s t (Suc k)) [1..<Suc l] dp (Suc k) j = lev s t (Suc k) j)"
  using assms
proof (induction l)
  case 0
  then show ?case by (auto simp: rowsDone_def)
next
  case (Suc l)
  define dp' where "dp' = fold (cellStep s t (Suc k)) [1..<Suc l] dp"
  from Suc have inv: "rowsDone s t k dp'"
    and row: "\<forall>j\<le>l. dp' (Suc k) j = lev s t (Suc k) j" by (auto simp: dp'_def)
  have fold_eq: "fold (cellStep s t (Suc k)) [1..<Suc (Suc l)] dp = cellStep s t (Suc k) (Suc l) dp'"
    by (simp add: dp'_def)
  have prev: "dp' k l = lev s t k l" "dp' k (Suc l) = lev s t k (Suc l)"
    using inv Suc.prems by (auto simp: rowsDone_def)
  have left: "dp' (Suc k) l = lev s t (Suc k) l" using row by simp
  have new: "cellStep s t (Suc k) (Suc l) dp' (Suc k) (Suc l) = lev s t (Suc k) (Suc l)"
    by (simp add: cellStep_def setCell_apply prev left)
  have old: "cellStep s t (Suc k) (Suc l) dp' a b = dp' a b" if "a \<noteq> Suc k \<or> b \<noteq> Suc l" for a b
    using that by (auto simp: cellStep_def setCell_apply)
  show ?case
    unfolding fold_eq
    using inv row new old by (auto simp: rowsDone_def le_Suc_eq)
qed

lemma fillRow_done:
  assumes "rowsDone s t k dp" "k < length s"
  shows "rowsDone s t (Suc k) (fillRow s t (Suc k) dp)"
  using cells_fold[OF assms(1) le_refl assms(2)]
  by (auto simp: fillRow_def rowsDone_def le_Suc_eq)

lemma rows_fold:
  assumes "rowsDone s t 0 dp" "k \<le> length s"
  shows "rowsDone s t k (fold (fillRow s t) [1..<Suc k] dp)"
  using assms
proof (induction k)
  case 0
  then show ?case by simp
next
  case (Suc k)
  then have "rowsDone s t k (fold (fillRow s t) [1..<Suc k] dp)" by simp
  from fillRow_done[OF this] Suc.prems show ?case by simp
qed

lemma fillTable_lev:
  assumes "i \<le> length s" "j \<le> length t"
  shows "fillTable s t i j = lev s t i j"
proof -
  have "rowsDone s t 0 (initRow (length t) (initColumn (length s) (\<lambda>_ _. 0)))"
    by (auto simp: rowsDone_def initial_table)
  from rows_fold[OF this le_refl] assms show ?thesis
    by (simp add: fillTable_def rowsDone_def)
qed


lemma rd_zero [simp]: "rd E 0 = 0"
  using Rep_rounding[of "roundNearest E"] by (simp add: rd_def)

lemma rd_one [simp]: "rd E 1 = 1"
  using Rep_rounding[of "roundNearest E"] by (simp add: rd_def)

lemma Rep_exact: "Rep_rounding (Abs_rounding (\<lambda>x. x)) = (\<lambda>x. x)"
  by (simp add: Abs_rounding_inverse)

lemma rd_exactArithmetic [simp]: "rd (exactArithmetic E) x = x"
  by (simp add: rd_def exactArithmetic_def Rep_exact)

lemma rd_exEngine [simp]: "rd exEngine x = x"
  by (simp add: rd_def exEngine_def Rep_exact)

lemma exEngine_exact: "exactArithmetic exEngine = exEngine"
  by (simp add: exactArithmetic_def exEngine_def)

lemma toLowerCase_exactArithmetic [simp]: "toLowerCase (exactArithmetic E) = toLowerCase E"
  by (simp add: exactArithmetic_def)

lemma calculateStringSimilarity_lev:
  "calculateStringSimilarity E s t =
     (if s = [] \<and> t = [] then None
      else Some (rd E (1 - rd E (real (lev s t (length s) (length t)) / real (max (length s) (length t))))))"
  by (auto simp: calculateStringSimilarity_def Let_def fillTable_lev)

section \<open>The distance in exact arithmetic\<close>

lemma abs_prod_le_half_squares: "\<bar>x * y\<bar> \<le> (x\<^sup>2 + y\<^sup>2) / 2" for x y :: real
proof -
  have "0 \<le> (\<bar>x\<bar> - \<bar>y\<bar>)\<^sup>2" by simp
  then have "2 * (\<bar>x\<bar> * \<bar>y\<bar>) \<le> \<bar>x\<bar>\<^sup>2 + \<bar>y\<bar>\<^sup>2"
    by (simp add: power2_diff)
  then show ?thesis by (simp add: abs_mult)
qed

lemma dot_le_one:
  fixes p1 p2 dl :: real
  shows "\<bar>cos p1 * cos p2 * cos dl + sin p1 * sin p2\<bar> \<le> 1"
proof -
  have "\<bar>cos p1 * cos p2 * cos dl\<bar> = \<bar>cos p1 * cos p2\<bar> * \<bar>cos dl\<bar>" by (simp add: abs_mult)
  also have "\<dots> \<le> \<bar>cos p1 * cos p2\<bar> * 1"
    by (rule mult_left_mono) simp_all
  finally have a: "\<bar>cos p1 * cos p2 * cos dl\<bar> \<le> ((cos p1)\<^sup>2 + (cos p2)\<^sup>2) / 2"
    using abs_prod_le_half_squares[of "cos p1" "cos p2"] by simp
  have b: "\<bar>sin p1 * sin p2\<bar> \<le> ((sin p1)\<^sup>2 + (sin p2)\<^sup>2) / 2"
    by (rule abs_prod_le_half_squares)
  have "\<bar>cos p1 * cos p2 * cos dl + sin p1 * sin p2\<bar>
          \<le> \<bar>cos p1 * cos p2 * cos dl\<bar> + \<bar>sin p1 * sin p2\<bar>" by (rule abs_triangle_ineq)
  also have "\<dots> \<le> ((cos p1)\<^sup>2 + (cos p2)\<^sup>2) / 2 + ((sin p1)\<^sup>2 + (sin p2)\<^sup>2) / 2"
    using a b by linarith
  also have "\<dots> = 1"
    unfolding cos_squared_eq by (simp add: field_simps)
  finally show ?thesis .
qed

lemma sin_half_sq: "sin (x / 2) * sin (x / 2) = (1 - cos x) / 2" for x :: real
  using cos_double_sin[of "x / 2"] by (simp add: power2_eq_square)

lemma haversine_term:
  fixes p1 p2 dl :: real
  shows "sin ((p2 - p1) / 2) * sin ((p2 - p1) / 2) + cos p1 * cos p2 * sin (dl / 2) * sin (dl / 2)
       = (1 - (cos p1 * cos p2 * cos dl + sin p1 * sin p2)) / 2"
proof -
  have "sin ((p2 - p1) / 2) * sin ((p2 - p1) / 2) + cos p1 * cos p2 * (sin (dl / 2) * sin (dl / 2))
       = (1 - cos (p2 - p1)) / 2 + cos p1 * cos p2 * ((1 - cos dl) / 2)"
    by (simp only: sin_half_sq)
  also have "\<dots> = (1 - (cos p1 * cos p2 * cos dl + sin p1 * sin p2)) / 2"
    by (simp add: cos_diff field_simps)
  finally show ?thesis by (simp add: mult.assoc)
qed

lemma havA_range: "0 \<le> havA lat1 lon1 lat2 lon2 \<and> havA lat1 lon1 lat2 lon2 \<le> 1"
proof -
  have e: "(lat2 - lat1) * pi / 180 / 2 = (lat2 * pi / 180 - lat1 * pi / 180) / 2"
    by (simp add: field_simps)
  have "havA lat1 lon1 lat2 lon2 =
          (1 - (cos (lat1 * pi / 180) * cos (lat2 * pi / 180) * cos ((lon2 - lon1) * pi / 180) +
                sin (lat1 * pi / 180) * sin (lat2 * pi / 180))) / 2"
    unfolding havA_def e by (rule haversine_term)
  then show ?thesis
    using dot_le_one[of "lat1 * pi / 180" "lat2 * pi / 180" "(lon2 - lon1) * pi / 180"]
    by (simp add: abs_le_iff)
qed

lemma calculateDistance_exact:
  "calculateDistance (exactArithmetic E) lat1 lon1 lat2 lon2 =
     Some (mathRound (6371000 * (2 * exactAtan2 (sqrt (havA lat1 lon1 lat2 lon2))
                                      (sqrt (1 - havA lat1 lon1 lat2 lon2)))))"
proof -
  have a: "sin ((lat2 - lat1) * pi / 180 / 2) * sin ((lat2 - lat1) * pi / 180 / 2) +
           cos (lat1 * pi / 180) * cos (lat2 * pi / 180) * sin ((lon2 - lon1) * pi / 180 / 2) *
             sin ((lon2 - lon1) * pi / 180 / 2) = havA lat1 lon1 lat2 lon2"
    by (simp add: havA_def)
  have sel: "mathPI (exactArithmetic E) = pi" "mathSin (exactArithmetic E) = sin"
    "mathCos (exactArithmetic E) = cos" "mathSqrt (exactArithmetic E) = sqrt"
    "mathAtan2 (exactArithmetic E) = exactAtan2"
    by (simp_all add: exactArithmetic_def)
  show ?thesis
    unfolding calculateDistance_def Let_def rd_exactArithmetic sel a jsSqrt_def
    using havA_range[of lat1 lon1 lat2 lon2] by simp
qed

lemma atan2_arcsin:
  assumes "0 \<le> a" "a \<le> 1"
  shows "exactAtan2 (sqrt a) (sqrt (1 - a)) = arcsin (sqrt a)"
proof (cases "a = 1")
  case True
  then show ?thesis by (simp add: exactAtan2_def)
next
  case False
  with assms have lt: "a < 1" by simp
  define y where "y = sqrt a"
  have y: "0 \<le> y" "y < 1" using assms lt by (simp_all add: y_def real_sqrt_lt_1_iff)
  have y2: "y\<^sup>2 = a" using assms by (simp add: y_def)
  define th where "th = arcsin y"
  have th: "- (pi / 2) < th" "th < pi / 2"
    using y arcsin_lt_bounded[of y] by (simp_all add: th_def)
  have s: "sin th = y" using y by (simp add: th_def)
  have c: "cos th = sqrt (1 - a)"
    using y cos_arcsin[of y] by (simp add: th_def y2)
  have pos: "0 < sqrt (1 - a)" using lt by simp
  have "arctan (sqrt a / sqrt (1 - a)) = arctan (tan th)"
    by (simp add: tan_def s c y_def)
  also have "\<dots> = th" using th by (simp add: arctan_tan)
  finally show ?thesis using pos by (simp add: exactAtan2_def th_def y_def)
qed

lemma havA_radians:
  "havA lat1 lon1 lat2 lon2 =
     (sin ((radians lat2 - radians lat1) / 2))\<^sup>2 +
     cos (radians lat1) * cos (radians lat2) * (sin ((radians lon2 - radians lon1) / 2))\<^sup>2"
proof -
  have e: "(y - x) * pi / 180 / 2 = (radians y - radians x) / 2" for x y :: real
    by (simp add: radians_def field_simps)
  show ?thesis
    unfolding havA_def e by (simp add: radians_def power2_eq_square mult.assoc)
qed

lemma calculateDistance_haversine:
  "calculateDistance (exactArithmetic E) lat1 lon1 lat2 lon2 =
     Some (mathRound (haversineMeters lat1 lon1 lat2 lon2))"
proof -
  have "exactAtan2 (sqrt (havA lat1 lon1 lat2 lon2)) (sqrt (1 - havA lat1 lon1 lat2 lon2)) =
        arcsin (sqrt (havA lat1 lon1 lat2 lon2))"
    using havA_range[of lat1 lon1 lat2 lon2] by (intro atan2_arcsin) simp_all
  then show ?thesis
    unfolding calculateDistance_exact haversineMeters_def havA_radians[symmetric]
    by (simp add: mult.assoc mult.left_commute)
qed

lemma haversine_same_point: "haversineMeters lat lon lat lon = 0"
  by (simp add: haversineMeters_def)

section \<open>Sorting\<close>

lemma insertSorted_not_Nil [simp]: "insertSorted cmp x ys \<noteq> []"
  by (cases ys) simp_all

lemma hd_insertSorted:
  "hd (insertSorted cmp x ys) = (if ys = [] \<or> notAfter cmp x (hd ys) then x else hd ys)"
  by (cases ys) simp_all

lemma arraySort_Cons: "arraySort cmp (x # xs) = insertSorted cmp x (arraySort cmp xs)"
  by (simp add: arraySort_def)

lemma arraySort_Nil [simp]: "arraySort cmp [] = []"
  by (simp add: arraySort_def)

lemma arraySort_eq_Nil [simp]: "arraySort cmp xs = [] \<longleftrightarrow> xs = []"
  by (cases xs) (simp_all add: arraySort_Cons)

lemma byScore_notAfter:
  "notAfter (\<lambda>a b. jsMinus (snd b) (snd a)) (x, Some s) (y, Some t) \<longleftrightarrow> t \<le> s"
  by (simp add: notAfter_def jsMinus_def)

lemma hd_arraySort_scores:
  assumes "ms \<noteq> []" "\<forall>m\<in>set ms. snd m \<noteq> None"
  shows "\<exists>i<length ms. hd (arraySort (\<lambda>a b. jsMinus (snd b) (snd a)) ms) = ms ! i \<and>
           (\<forall>j<length ms. the (snd (ms ! j)) \<le> the (snd (ms ! i))) \<and>
           (\<forall>j<i. the (snd (ms ! j)) < the (snd (ms ! i)))"
  using assms
proof (induction ms)
  case Nil
  then show ?case by simp
next
  case (Cons m ms)
  let ?cmp = "\<lambda>a b. jsMinus (snd b) (snd a)"
  obtain x s where m: "m = (x, Some s)" using Cons.prems(2) by (cases m) auto
  show ?case
  proof (cases "ms = []")
    case True
    then show ?thesis by (simp add: arraySort_Cons)
  next
    case False
    with Cons obtain i where i: "i < length ms" "hd (arraySort ?cmp ms) = ms ! i"
      "\<forall>j<length ms. the (snd (ms ! j)) \<le> the (snd (ms ! i))"
      "\<forall>j<i. the (snd (ms ! j)) < the (snd (ms ! i))" by auto
    have "ms ! i \<in> set ms" using i(1) by simp
    then have "snd (ms ! i) \<noteq> None" using Cons.prems(2) by simp
    then obtain y t where y: "ms ! i = (y, Some t)" by (cases "ms ! i") auto
    have hd_eq: "hd (arraySort ?cmp (m # ms)) = (if t \<le> s then m else ms ! i)"
      using False by (simp add: arraySort_Cons hd_insertSorted i(2) y m byScore_notAfter)
    show ?thesis
    proof (cases "t \<le> s")
      case True
      have "\<forall>j<length (m # ms). the (snd ((m # ms) ! j)) \<le> the (snd ((m # ms) ! 0))"
      proof (intro allI impI)
        fix j assume "j < length (m # ms)"
        then show "the (snd ((m # ms) ! j)) \<le> the (snd ((m # ms) ! 0))"
          using i(3) True y m by (cases j) (auto intro: order_trans)
      qed
      with True hd_eq show ?thesis by (intro exI[of _ 0]) simp
    next
      case False
      have a: "\<forall>j<length (m # ms). the (snd ((m # ms) ! j)) \<le> the (snd ((m # ms) ! Suc i))"
      proof (intro allI impI)
        fix j assume "j < length (m # ms)"
        then show "the (snd ((m # ms) ! j)) \<le> the (snd ((m # ms) ! Suc i))"
          using i(3) False y m by (cases j) auto
      qed
      have b: "\<forall>j<Suc i. the (snd ((m # ms) ! j)) < the (snd ((m # ms) ! Suc i))"
      proof (intro allI impI)
        fix j assume "j < Suc i"
        then show "the (snd ((m # ms) ! j)) < the (snd ((m # ms) ! Suc i))"
          using i(4) False y m by (cases j) auto
      qed
      from False hd_eq a b i(1) show ?thesis by (intro exI[of _ "Suc i"]) simp
    qed
  qed
qed

lemma set_insertSorted [simp]: "set (insertSorted cmp x ys) = insert x (set ys)"
  by (induction ys) auto

lemma mset_insertSorted [simp]: "mset (insertSorted cmp x ys) = add_mset x (mset ys)"
  by (induction ys) auto

lemma mset_arraySort [simp]: "mset (arraySort cmp xs) = mset xs"
  by (induction xs) (simp_all add: arraySort_Cons)

lemma set_arraySort [simp]: "set (arraySort cmp xs) = set xs"
  by (induction xs) (simp_all add: arraySort_Cons)

lemma length_arraySort [simp]: "length (arraySort cmp xs) = length xs"
  using mset_arraySort[of cmp xs] by (metis size_mset)



lemma notAfter_compareHotels:
  "notAfter compareHotels a b \<longleftrightarrow>
     (if available a \<noteq> available b then available a
      else if hasPrice a \<and> hasPrice b then amountOf a \<le> amountOf b
      else if hasPrice a then True
      else if hasPrice b then False
      else g_rating (base b) \<le> g_rating (base a))"
  by (auto simp: notAfter_def compareHotels_def jsMinus_def truthyNumber_def priceAmount_def
        hasPrice_def amountOf_def split: option.splits)








section \<open>The batches\<close>

lemma enrichBatches_step:
  assumes "i < length hs"
  shows "enrichBatches E P ci co g hs i acc w =
           enrichBatches E P ci co g hs (i + BATCH_SIZE)
             (acc @ map (batchEntry E P ci co g (length (pricingCalls w)) (take BATCH_SIZE (drop i hs)))
                        (take BATCH_SIZE (drop i hs)))
             (if i + BATCH_SIZE < length hs
              then w\<lparr>pricingCalls := pricingCalls w @ [batchQuery (take BATCH_SIZE (drop i hs)) ci co g],
                      timeouts := timeouts w @ [1000]\<rparr>
              else w\<lparr>pricingCalls := pricingCalls w @ [batchQuery (take BATCH_SIZE (drop i hs)) ci co g]\<rparr>)"
proof -
  have m: "acc @ map (batchEntry E P ci co g n b) b =
        (case P n (batchQuery b ci co g) of
           Inr bookingResults \<Rightarrow> acc @ map (enrichOne E bookingResults) b
         | Inl err \<Rightarrow> acc @ map failedHotel b)" for n b
    by (simp add: batchEntry_def split: sum.splits)
  show ?thesis
    unfolding m using assms
    by (subst enrichBatches.simps) (simp add: Let_def)
qed

lemma enrichBatches_stop:
  assumes "\<not> i < length hs"
  shows "enrichBatches E P ci co g hs i acc w = (acc, w)"
  using assms by (subst enrichBatches.simps) simp

lemma enrichBatches_cache: "cache (snd (enrichBatches E P ci co g hs i acc w)) = cache w"
proof (induction "length hs - i" arbitrary: i acc w rule: less_induct)
  case less
  show ?case
  proof (cases "i < length hs")
    case True
    then have "length hs - (i + BATCH_SIZE) < length hs - i" by (simp add: BATCH_SIZE_def)
    from less[OF this] show ?thesis
      unfolding enrichBatches_step[OF True] by simp
  next
    case False
    then show ?thesis by (simp add: enrichBatches_stop)
  qed
qed

lemma enrichBatches_googleCalls:
  "googleCalls (snd (enrichBatches E P ci co g hs i acc w)) = googleCalls w"
proof (induction "length hs - i" arbitrary: i acc w rule: less_induct)
  case less
  show ?case
  proof (cases "i < length hs")
    case True
    then have "length hs - (i + BATCH_SIZE) < length hs - i" by (simp add: BATCH_SIZE_def)
    from less[OF this] show ?thesis
      unfolding enrichBatches_step[OF True] by simp
  next
    case False
    then show ?thesis by (simp add: enrichBatches_stop)
  qed
qed

lemma enrichBatches_nth:
  assumes "length acc = min i (length hs)" "i mod BATCH_SIZE = 0"
      and "length (pricingCalls w) = c0 + i div BATCH_SIZE"
      and "\<forall>j<length acc. acc ! j = entryAt E P ci co g c0 hs j"
  shows "length (fst (enrichBatches E P ci co g hs i acc w)) = length hs \<and>
         (\<forall>j<length hs. fst (enrichBatches E P ci co g hs i acc w) ! j = entryAt E P ci co g c0 hs j)"
  using assms
proof (induction "length hs - i" arbitrary: i acc w rule: less_induct)
  case less
  show ?case
  proof (cases "i < length hs")
    case False
    with less.prems show ?thesis by (simp add: enrichBatches_stop min_def)
  next
    case True
    define batch where "batch = take BATCH_SIZE (drop i hs)"
    define acc1 where "acc1 = acc @ map (batchEntry E P ci co g (length (pricingCalls w)) batch) batch"
    define w1 where "w1 = (if i + BATCH_SIZE < length hs
              then w\<lparr>pricingCalls := pricingCalls w @ [batchQuery batch ci co g],
                      timeouts := timeouts w @ [1000]\<rparr>
              else w\<lparr>pricingCalls := pricingCalls w @ [batchQuery batch ci co g]\<rparr>)"
    have step: "enrichBatches E P ci co g hs i acc w = enrichBatches E P ci co g hs (i + BATCH_SIZE) acc1 w1"
      unfolding enrichBatches_step[OF True] acc1_def w1_def batch_def ..
    have lacc: "length acc = i" using less.prems(1) True by simp
    have lbatch: "length batch = min BATCH_SIZE (length hs - i)" by (simp add: batch_def)
    have l1: "length acc1 = min (i + BATCH_SIZE) (length hs)"
      using True by (auto simp: acc1_def lacc lbatch min_def)
    have m1: "(i + BATCH_SIZE) mod BATCH_SIZE = 0" using less.prems(2) by simp
    have c1: "length (pricingCalls w1) = c0 + (i + BATCH_SIZE) div BATCH_SIZE"
      using less.prems(3) by (simp add: w1_def BATCH_SIZE_def)
    have e1: "\<forall>j<length acc1. acc1 ! j = entryAt E P ci co g c0 hs j"
    proof (intro allI impI)
      fix j assume j: "j < length acc1"
      show "acc1 ! j = entryAt E P ci co g c0 hs j"
      proof (cases "j < i")
        case True
        then show ?thesis using less.prems(4) lacc by (simp add: acc1_def nth_append)
      next
        case False
        then have ji: "i \<le> j" by simp
        have jb: "j - i < length batch" using j ji lacc by (simp add: acc1_def)
        then have jB: "j < i + BATCH_SIZE" using ji lbatch by arith
        have jdiv: "j div BATCH_SIZE = i div BATCH_SIZE"
          using ji jB less.prems(2) by (auto simp: BATCH_SIZE_def) 
        have istart: "BATCH_SIZE * (i div BATCH_SIZE) = i"
          using less.prems(2) by (auto simp: BATCH_SIZE_def)
        have "batch ! (j - i) = hs ! j"
          using jb ji True by (simp add: batch_def)
        then have "acc1 ! j = batchEntry E P ci co g (length (pricingCalls w)) batch (hs ! j)"
          using False jb lacc by (simp add: acc1_def nth_append)
        then show ?thesis
          by (simp add: entryAt_def jdiv istart less.prems(3) batch_def)
      qed
    qed
    have "length hs - (i + BATCH_SIZE) < length hs - i" using True by (simp add: BATCH_SIZE_def)
    from less.hyps[OF this l1 m1 c1 e1] show ?thesis unfolding step .
  qed
qed

lemma enrichBatches_from_start:
  "length (fst (enrichBatches E P ci co g hs 0 [] w)) = length hs \<and>
   (\<forall>j<length hs. fst (enrichBatches E P ci co g hs 0 [] w) ! j =
       entryAt E P ci co g (length (pricingCalls w)) hs j)"
  by (rule enrichBatches_nth) simp_all

lemma base_batchEntry [simp]: "base (batchEntry E P ci co g c b h) = h"
  by (simp add: batchEntry_def enrichOne_def matchedHotel_def unmatchedHotel_def failedHotel_def
        split: sum.splits option.splits)

lemma enrich_miss:
  assumes "getCache (cache w) (cacheKey ci co g hs) = None"
  shows "enrichHotelsWithPricing E P hs ci co g w =
           (fst (enrichBatches E P ci co g hs 0 [] w),
            (snd (enrichBatches E P ci co g hs 0 [] w))
              \<lparr>cache := setCache (cache w) (cacheKey ci co g hs)
                          (fst (enrichBatches E P ci co g hs 0 [] w)) 1800\<rparr>)"
  using assms
  by (simp add: enrichHotelsWithPricing_def Let_def case_prod_unfold enrichBatches_cache)


lemma map_base_enrichBatches:
  "map base (fst (enrichBatches E P ci co g hs 0 [] w)) = hs"
proof (rule nth_equalityI)
  show "length (map base (fst (enrichBatches E P ci co g hs 0 [] w))) = length hs"
    using enrichBatches_from_start[of E P ci co g hs w] by simp
next
  fix i assume "i < length (map base (fst (enrichBatches E P ci co g hs 0 [] w)))"
  then show "map base (fst (enrichBatches E P ci co g hs 0 [] w)) ! i = hs ! i"
    using enrichBatches_from_start[of E P ci co g hs w] by (simp add: entryAt_def)
qed

lemma runSearch_no_Error: "fst (runSearch E google pricing lat lng ci co gc w) \<noteq> Inl (Error msg)"
  by (simp add: runSearch_def Let_def case_prod_unfold split: google_reply.splits)

section \<open>The match score in exact arithmetic\<close>

lemma calculateMatchScore_exact:
  "calculateMatchScore (exactArithmetic E) d p =
     (if toLowerCase E (g_name d) = [] \<and> toLowerCase E (b_name p) = [] then None
      else Some (weightedScore (toLowerCase E) d p))"
proof (cases "toLowerCase E (g_name d) = [] \<and> toLowerCase E (b_name p) = []")
  case True
  then show ?thesis
    by (simp add: calculateMatchScore_def calculateStringSimilarity_lev)
next
  case False
  define ns where "ns = nameSimilarity (toLowerCase E (g_name d)) (toLowerCase E (b_name p))"
  define m where "m = mathRound (haversineMeters (g_latitude d) (g_longitude d)
                                   (b_latitude p) (b_longitude p))"
  have sim: "calculateStringSimilarity (exactArithmetic E) (toLowerCase E (g_name d))
               (toLowerCase E (b_name p)) = Some ns"
    using False by (auto simp: calculateStringSimilarity_lev ns_def nameSimilarity_def)
  have dist: "calculateDistance (exactArithmetic E) (g_latitude d) (g_longitude d)
                (b_latitude p) (b_longitude p) = Some m"
    by (simp add: calculateDistance_haversine m_def)
  have "calculateMatchScore (exactArithmetic E) d p =
          Some (ns * (1 / 2) + max 0 (1 - m / 500) * (3 / 10) +
                (if g_rating d \<noteq> 0 \<and> b_rating p \<noteq> 0
                 then (1 - \<bar>g_rating d - b_rating p\<bar> / 5) * (2 / 10) else 0))"
    unfolding calculateMatchScore_def Let_def toLowerCase_exactArithmetic sim dist by simp
  also have "ns * (1 / 2) + max 0 (1 - m / 500) * (3 / 10) +
                (if g_rating d \<noteq> 0 \<and> b_rating p \<noteq> 0
                 then (1 - \<bar>g_rating d - b_rating p\<bar> / 5) * (2 / 10) else 0)
           = weightedScore (toLowerCase E) d p"
    by (simp add: weightedScore_def ratingSimilarity_def ns_def m_def)
  finally show ?thesis using False by simp
qed

lemma calculateMatchScore_exEngine:
  "calculateMatchScore exEngine d p =
     (if map lowerChar (g_name d) = [] \<and> map lowerChar (b_name p) = [] then None
      else Some (weightedScore (map lowerChar) d p))"
  using calculateMatchScore_exact[of exEngine d p]
  by (simp add: exEngine_exact) (simp add: exEngine_def)

lemma haversine_equator:
  assumes "0 \<le> x" "x \<le> 180"
  shows "haversineMeters 0 0 0 x = 6371000 * radians x"
proof -
  have r0: "radians 0 = 0" by (simp add: radians_def)
  have r: "0 \<le> radians x / 2" "radians x / 2 \<le> pi / 2"
    using assms by (simp_all add: radians_def)
  have "0 \<le> sin (radians x / 2)"
    using r by (intro sin_ge_zero) simp_all
  then have sq: "sqrt ((sin (radians x / 2))\<^sup>2) = sin (radians x / 2)" by simp
  have as: "arcsin (sin (radians x / 2)) = radians x / 2"
    using r by (intro arcsin_sin) simp_all
  have "haversineMeters 0 0 0 x = 2 * 6371000 * arcsin (sqrt ((sin (radians x / 2))\<^sup>2))"
    by (simp add: haversineMeters_def r0)
  also have "\<dots> = 6371000 * radians x"
    unfolding sq as by simp
  finally show ?thesis .
qed

lemma exNear_meters:
  "haversineMeters 0 0 0 (1 / 1000000) = 6371 * pi / 180000"
  by (subst haversine_equator) (simp_all add: radians_def)

lemma exNear_meters_bounds:
  "7 / 100 < haversineMeters 0 0 0 (1 / 1000000)" "haversineMeters 0 0 0 (1 / 1000000) < 1 / 2"
  using pi_ge_two pi_less_4 unfolding exNear_meters by simp_all

lemma exNear_rounded: "mathRound (haversineMeters 0 0 0 (1 / 1000000)) = 0"
proof -
  have "\<lfloor>haversineMeters 0 0 0 (1 / 1000000) + 1 / 2\<rfloor> = 0"
    using exNear_meters_bounds by (intro floor_unique) simp_all
  then show ?thesis by (simp add: mathRound_def)
qed

lemmas char_eval = lowerChar_def char_of_def bit_Suc_0_iff

lemma exNear_scores:
  "weightedScore (map lowerChar) exOrigin exNear = 70004 / 100000"
  "claimedScore (map lowerChar) exOrigin exNear < 7 / 10"
proof -
  have ns: "nameSimilarity (map lowerChar ''ab'') (map lowerChar ''ax'') = 1 / 2"
    by (simp add: nameSimilarity_def char_eval)
  have names: "g_name exOrigin = ''ab''" "b_name exNear = ''ax''"
    by (simp_all add: exOrigin_def exNear_def)
  have rest: "g_rating exOrigin = 4" "b_rating exNear = 2751 / 1000"
    "g_latitude exOrigin = 0" "g_longitude exOrigin = 0"
    "b_latitude exNear = 0" "b_longitude exNear = 1 / 1000000"
    by (simp_all add: exOrigin_def exNear_def)
  show "weightedScore (map lowerChar) exOrigin exNear = 70004 / 100000"
    unfolding weightedScore_def names ns rest exNear_rounded
    by (simp add: ratingSimilarity_def rest)
  have "max 0 (1 - haversineMeters 0 0 0 (1 / 1000000) / 500) < 1 - 7 / 50000"
    using exNear_meters_bounds by simp
  then show "claimedScore (map lowerChar) exOrigin exNear < 7 / 10"
    unfolding claimedScore_def names ns rest
    by (simp add: ratingSimilarity_def rest)
qed



section \<open>Evaluation of the examples\<close>

lemma toLowerCase_exEngine [simp]: "toLowerCase exEngine = map lowerChar"
  by (simp add: exEngine_def)

lemmas search_eval =
  searchHotels_def runSearch_def exArgs_def exWorld_def truthyNumber_def truthyString_def
  guestCountOf_def enrichHotelsWithPricing_def getCache_def Let_def
  enrichBatches_step enrichBatches_stop BATCH_SIZE_def batchEntry_def enrichOne_def
  findBestBookingMatch_def exPlace_def exOffer_def toGoogleHotel_def char_eval
  arraySort_def notAfter_compareHotels matchedHotel_def unmatchedHotel_def hasPrice_def
  priceAmount_def amountOf_def





lemma ex_same_name_and_address:
  "fst (searchHotels exEngine
         (\<lambda>lat lng. Body ''OK'' [exPlace ''a'' ''Ritz'' ''1 Main St'' 3,
                                  exPlace ''b'' ''RITZ'' ''1 main st'' 3] None)
         (\<lambda>k q. Inr [])
         (exArgs (Number (Some 2))) exWorld)
   = Inr (makeResult
       [unmatchedHotel (toGoogleHotel (exPlace ''a'' ''Ritz'' ''1 Main St'' 3)),
        unmatchedHotel (toGoogleHotel (exPlace ''b'' ''RITZ'' ''1 main st'' 3))])"
  by (simp add: search_eval)

lemma pair_from_fst: "fst p = a \<Longrightarrow> p = (a, snd p)"
  by (cases p) simp

section \<open>The claims\<close>

text \<open>
  C1, as the code has it. For every engine, every discovery record \<open>d\<close> and every
  non-empty list \<open>ps\<close> of pricing records: \<open>findBestBookingMatch\<close> returns the first
  record of \<open>ps\<close> whose lowercased name equals the lowercased name of \<open>d\<close>, if
  there is one. If there is none, and the score the engine computes for every
  candidate is a number, the result is the first
  candidate with the highest computed score when that score is greater than the double
  \<open>0.7\<close>, and null when it is not. In exact arithmetic the score the code computes
  is 0.5 \<times> name similarity + 0.3 \<times> distance score + 0.2 \<times> rating similarity, where
  the distance score is \<open>max(0, 1 - D / 500)\<close> on the haversine distance \<open>D\<close> in
  metres rounded to the nearest whole metre, and it is not a number when both
  lowercased names are empty.
\<close>

theorem findBestBookingMatch_selects:
  assumes "ps \<noteq> []"
  shows "(\<forall>e. find (\<lambda>p. toLowerCase E (b_name p) = toLowerCase E (g_name d)) ps = Some e
              \<longrightarrow> findBestBookingMatch E d ps = Some e) \<and>
         (find (\<lambda>p. toLowerCase E (b_name p) = toLowerCase E (g_name d)) ps = None \<and>
          (\<forall>p\<in>set ps. calculateMatchScore E d p \<noteq> None) \<longrightarrow>
            (\<exists>i<length ps. \<exists>s.
               calculateMatchScore E d (ps ! i) = Some s \<and>
               (\<forall>j<length ps. \<exists>t. calculateMatchScore E d (ps ! j) = Some t \<and> t \<le> s) \<and>
               (\<forall>j<i. \<exists>t. calculateMatchScore E d (ps ! j) = Some t \<and> t < s) \<and>
               findBestBookingMatch E d ps =
                 (if rd E (7 / 10) < s then Some (ps ! i) else None))) \<and>
         (\<forall>p. calculateMatchScore (exactArithmetic E) d p =
                (if toLowerCase E (g_name d) = [] \<and> toLowerCase E (b_name p) = [] then None
                 else Some (weightedScore (toLowerCase E) d p)))"
proof (intro conjI allI impI)
  fix e assume "find (\<lambda>p. toLowerCase E (b_name p) = toLowerCase E (g_name d)) ps = Some e"
  then show "findBestBookingMatch E d ps = Some e"
    using assms by (simp add: findBestBookingMatch_def)
next
  fix p
  show "calculateMatchScore (exactArithmetic E) d p =
          (if toLowerCase E (g_name d) = [] \<and> toLowerCase E (b_name p) = [] then None
           else Some (weightedScore (toLowerCase E) d p))"
    by (rule calculateMatchScore_exact)
next
  assume hyp: "find (\<lambda>p. toLowerCase E (b_name p) = toLowerCase E (g_name d)) ps = None \<and>
          (\<forall>p\<in>set ps. calculateMatchScore E d p \<noteq> None)"
  then have none: "find (\<lambda>p. toLowerCase E (b_name p) = toLowerCase E (g_name d)) ps = None"
    and numbers: "\<forall>p\<in>set ps. calculateMatchScore E d p \<noteq> None" by auto
  define ms where "ms = map (\<lambda>bh. (bh, calculateMatchScore E d bh)) ps"
  define sorted where "sorted = arraySort (\<lambda>a b. jsMinus (snd b) (snd a)) ms"
  have nth: "ms ! j = (ps ! j, calculateMatchScore E d (ps ! j))" if "j < length ps" for j
    using that by (simp add: ms_def)
  have some: "\<forall>m\<in>set ms. snd m \<noteq> None"
    using numbers by (auto simp: ms_def)
  have ne: "ms \<noteq> []" using assms by (simp add: ms_def)
  have len: "length ms = length ps" by (simp add: ms_def)
  from hd_arraySort_scores[OF ne some] obtain i where i: "i < length ms"
    "hd sorted = ms ! i"
    "\<forall>j<length ms. the (snd (ms ! j)) \<le> the (snd (ms ! i))"
    "\<forall>j<i. the (snd (ms ! j)) < the (snd (ms ! i))"
    unfolding sorted_def by blast
  have il: "i < length ps" using i(1) len by simp
  have sc: "\<exists>t. calculateMatchScore E d (ps ! j) = Some t" if "j < length ps" for j
    using numbers that by (meson nth_mem not_None_eq)
  obtain s where s: "calculateMatchScore E d (ps ! i) = Some s" using sc[OF il] by blast
  have "sorted \<noteq> []" using ne by (simp add: sorted_def)
  then obtain rest where sorted_eq: "sorted = ms ! i # rest"
    using i(2) by (cases sorted) auto
  have res: "findBestBookingMatch E d ps = (if rd E (7 / 10) < s then Some (ps ! i) else None)"
    using assms none sorted_eq
    by (simp add: findBestBookingMatch_def Let_def ms_def[symmetric] sorted_def[symmetric]
          nth[OF il] s jsGreater_def)
  have all: "\<forall>j<length ps. \<exists>t. calculateMatchScore E d (ps ! j) = Some t \<and> t \<le> s"
  proof (intro allI impI)
    fix j assume j: "j < length ps"
    from sc[OF j] obtain t where t: "calculateMatchScore E d (ps ! j) = Some t" by blast
    moreover have "the (snd (ms ! j)) \<le> the (snd (ms ! i))" using i(3) j len by simp
    ultimately show "\<exists>t. calculateMatchScore E d (ps ! j) = Some t \<and> t \<le> s"
      using nth[OF j] nth[OF il] s by simp
  qed
  have before: "\<forall>j<i. \<exists>t. calculateMatchScore E d (ps ! j) = Some t \<and> t < s"
  proof (intro allI impI)
    fix j assume j: "j < i"
    then have jl: "j < length ps" using il by simp
    from sc[OF jl] obtain t where t: "calculateMatchScore E d (ps ! j) = Some t" by blast
    moreover have "the (snd (ms ! j)) < the (snd (ms ! i))" using i(4) j by simp
    ultimately show "\<exists>t. calculateMatchScore E d (ps ! j) = Some t \<and> t < s"
      using nth[OF jl] nth[OF il] s by simp
  qed
  from il s all before res
  show "\<exists>i<length ps. \<exists>s.
          calculateMatchScore E d (ps ! i) = Some s \<and>
          (\<forall>j<length ps. \<exists>t. calculateMatchScore E d (ps ! j) = Some t \<and> t \<le> s) \<and>
          (\<forall>j<i. \<exists>t. calculateMatchScore E d (ps ! j) = Some t \<and> t < s) \<and>
          findBestBookingMatch E d ps = (if rd E (7 / 10) < s then Some (ps ! i) else None)"
    by blast
qed

theorem findBestBookingMatch_selects_witness:
  "[exNear] \<noteq> [] \<and>
   calculateMatchScore exEngine exOrigin exNear = Some (70004 / 100000) \<and>
   findBestBookingMatch exEngine exOrigin [exNear] = Some exNear \<and>
   findBestBookingMatch exEngine (toGoogleHotel (exPlace ''a'' ''Ab'' ''1 Main St'' 4))
     [exOffer ''1'' ''AB'' 100] = Some (exOffer ''1'' ''AB'' 100) \<and>
   findBestBookingMatch exEngine (toGoogleHotel (exPlace ''a'' ''Ab'' ''1 Main St'' 4))
     [exOffer ''3'' ''xy'' 90] = None"
proof -
  let ?d = "toGoogleHotel (exPlace ''a'' ''Ab'' ''1 Main St'' 4)"
  have lower: "toLowerCase exEngine = map lowerChar" by (simp add: exEngine_def)
  have sc: "calculateMatchScore exEngine exOrigin exNear = Some (70004 / 100000)"
    by (simp add: calculateMatchScore_exEngine exNear_scores) (simp add: exOrigin_def)
  have f1: "find (\<lambda>p. toLowerCase exEngine (b_name p) = toLowerCase exEngine (g_name exOrigin)) [exNear]
              = None"
    by (simp add: lower exOrigin_def exNear_def char_eval)
  have ne: "[exNear] \<noteq> []" by simp
  note t = findBestBookingMatch_selects[OF ne, of exEngine exOrigin,
             THEN conjunct2, THEN conjunct1, rule_format]
  have pre: "find (\<lambda>p. toLowerCase exEngine (b_name p) = toLowerCase exEngine (g_name exOrigin))
               [exNear] = None \<and>
             (\<forall>p\<in>set [exNear]. calculateMatchScore exEngine exOrigin p \<noteq> None)"
    using f1 sc by simp
  from t[OF pre] obtain i s where sel: "i < length [exNear]"
    "calculateMatchScore exEngine exOrigin ([exNear] ! i) = Some s"
    "findBestBookingMatch exEngine exOrigin [exNear] =
       (if rd exEngine (7 / 10) < s then Some ([exNear] ! i) else None)"
    by blast
  from sel(1) have i0: "i = 0" by simp
  from sel(2) sc have "s = 70004 / 100000" by (simp add: i0)
  with sel(3) have a: "findBestBookingMatch exEngine exOrigin [exNear] = Some exNear"
    by (simp add: i0)
  have f2: "find (\<lambda>p. toLowerCase exEngine (b_name p) = toLowerCase exEngine (g_name ?d))
              [exOffer ''1'' ''AB'' 100] = Some (exOffer ''1'' ''AB'' 100)"
    by (simp add: lower exOffer_def exPlace_def toGoogleHotel_def char_eval)
  from findBestBookingMatch_selects[of "[exOffer ''1'' ''AB'' 100]" exEngine ?d] f2
  have b: "findBestBookingMatch exEngine ?d [exOffer ''1'' ''AB'' 100] = Some (exOffer ''1'' ''AB'' 100)"
    by simp
  have f3: "find (\<lambda>p. toLowerCase exEngine (b_name p) = toLowerCase exEngine (g_name ?d))
              [exOffer ''3'' ''xy'' 90] = None"
    by (simp add: lower exOffer_def exPlace_def toGoogleHotel_def char_eval)
  have sc3: "calculateMatchScore exEngine ?d (exOffer ''3'' ''xy'' 90) = Some (1 / 2)"
    by (simp add: calculateMatchScore_exEngine)
       (simp add: weightedScore_def nameSimilarity_def ratingSimilarity_def haversine_same_point
          mathRound_def exOffer_def exPlace_def toGoogleHotel_def char_eval)
  have ne3: "[exOffer ''3'' ''xy'' 90] \<noteq> []" by simp
  note t3 = findBestBookingMatch_selects[OF ne3, of exEngine ?d,
              THEN conjunct2, THEN conjunct1, rule_format]
  have pre3: "find (\<lambda>p. toLowerCase exEngine (b_name p) = toLowerCase exEngine (g_name ?d))
               [exOffer ''3'' ''xy'' 90] = None \<and>
             (\<forall>p\<in>set [exOffer ''3'' ''xy'' 90].
                calculateMatchScore exEngine ?d p \<noteq> None)"
    using f3 sc3 by simp
  from t3[OF pre3] obtain k u where ku: "k < length [exOffer ''3'' ''xy'' 90]"
    "calculateMatchScore exEngine ?d ([exOffer ''3'' ''xy'' 90] ! k) = Some u"
    "findBestBookingMatch exEngine ?d [exOffer ''3'' ''xy'' 90] =
       (if rd exEngine (7 / 10) < u then Some ([exOffer ''3'' ''xy'' 90] ! k) else None)"
    by blast
  from ku(1) have k0: "k = 0" by simp
  from ku(2) sc3 have "u = 1 / 2" by (simp add: k0)
  with ku(3) have c: "findBestBookingMatch exEngine ?d [exOffer ''3'' ''xy'' 90] = None"
    by (simp add: k0)
  from sc a b c show ?thesis by simp
qed

text \<open>
  C1, as the specification has it, fails on the distance: the code rounds it to whole
  metres. The candidate lies 0.11 m from the discovery record, which the code takes
  for 0 m; its score is then 0.70004 and it is returned, where the score on the
  distance in metres is below 0.7.
\<close>

theorem findBestBookingMatch_metres_counterexample:
  "findBestBookingMatch exEngine exOrigin [exNear] = Some exNear \<and>
   claimedScore (toLowerCase exEngine) exOrigin exNear < 7 / 10"
proof -
  have "toLowerCase exEngine (b_name exNear) \<noteq> toLowerCase exEngine (g_name exOrigin)"
    by (simp add: exEngine_def exOrigin_def exNear_def char_eval)
  moreover have "calculateMatchScore exEngine exOrigin exNear = Some (70004 / 100000)"
    by (simp add: calculateMatchScore_exEngine exNear_scores) (simp add: exOrigin_def)
  ultimately have "findBestBookingMatch exEngine exOrigin [exNear] = Some exNear"
    by (simp add: findBestBookingMatch_def arraySort_def jsGreater_def)
  moreover have "claimedScore (toLowerCase exEngine) exOrigin exNear < 7 / 10"
    using exNear_scores(2) by (simp add: exEngine_def)
  ultimately show ?thesis by simp
qed

text \<open>
  C2. The hotels are priced in batches of 10. When the pricing lookup of a batch
  throws, \<open>enrichHotelsWithPricing\<close> still returns one entry for every hotel, in
  order: a hotel of a batch whose lookup threw is unavailable, has no price and
  carries the error tag, and a hotel of any other batch, before or after, is what
  the matching against the answer for its own batch gives. (On a cache miss; the
  lookup of batch \<open>k\<close> is call number \<open>k\<close> of the run.)
\<close>

theorem enrich_survives_failed_batch:
  assumes "getCache (cache w) (cacheKey ci co g hs) = None" and "j < length hs"
  shows "length (fst (enrichHotelsWithPricing E P hs ci co g w)) = length hs \<and>
         base (fst (enrichHotelsWithPricing E P hs ci co g w) ! j) = hs ! j \<and>
         (case P (length (pricingCalls w) + j div BATCH_SIZE)
                 (batchQuery (take BATCH_SIZE (drop (BATCH_SIZE * (j div BATCH_SIZE)) hs)) ci co g) of
            Inl err \<Rightarrow>
              \<not> available (fst (enrichHotelsWithPricing E P hs ci co g w) ! j) \<and>
              price (fst (enrichHotelsWithPricing E P hs ci co g w) ! j) = None \<and>
              error (fst (enrichHotelsWithPricing E P hs ci co g w) ! j) = Some ''Failed to fetch pricing''
          | Inr bookingResults \<Rightarrow>
              fst (enrichHotelsWithPricing E P hs ci co g w) ! j = enrichOne E bookingResults (hs ! j))"
proof -
  have out: "fst (enrichHotelsWithPricing E P hs ci co g w) = fst (enrichBatches E P ci co g hs 0 [] w)"
    by (simp add: enrich_miss[OF assms(1)])
  have nth: "fst (enrichBatches E P ci co g hs 0 [] w) ! j = entryAt E P ci co g (length (pricingCalls w)) hs j"
    using enrichBatches_from_start[of E P ci co g hs w] assms(2) by simp
  have len: "length (fst (enrichBatches E P ci co g hs 0 [] w)) = length hs"
    using enrichBatches_from_start[of E P ci co g hs w] by simp
  show ?thesis
    unfolding out nth len
    by (simp add: entryAt_def batchEntry_def failedHotel_def enrichOne_def matchedHotel_def
          unmatchedHotel_def split: sum.splits option.splits)
qed

theorem enrich_survives_failed_batch_witness:
  "getCache (cache exWorld)
     (cacheKey ''2025-01-01'' ''2025-01-02'' 2
        (replicate 25 (toGoogleHotel (exPlace ''a'' ''Ritz'' ''1 Main St'' 4)))) = None \<and>
   length (fst (enrichHotelsWithPricing exEngine
       (\<lambda>k q. if k = 1 then Inl ''Booking.com API request failed''
               else Inr [exOffer ''1'' ''ritz'' 100])
       (replicate 25 (toGoogleHotel (exPlace ''a'' ''Ritz'' ''1 Main St'' 4)))
       ''2025-01-01'' ''2025-01-02'' 2 exWorld)) = 25 \<and>
   price (fst (enrichHotelsWithPricing exEngine
       (\<lambda>k q. if k = 1 then Inl ''Booking.com API request failed''
               else Inr [exOffer ''1'' ''ritz'' 100])
       (replicate 25 (toGoogleHotel (exPlace ''a'' ''Ritz'' ''1 Main St'' 4)))
       ''2025-01-01'' ''2025-01-02'' 2 exWorld) ! 3) = Some (b_price (exOffer ''1'' ''ritz'' 100)) \<and>
   \<not> available (fst (enrichHotelsWithPricing exEngine
       (\<lambda>k q. if k = 1 then Inl ''Booking.com API request failed''
               else Inr [exOffer ''1'' ''ritz'' 100])
       (replicate 25 (toGoogleHotel (exPlace ''a'' ''Ritz'' ''1 Main St'' 4)))
       ''2025-01-01'' ''2025-01-02'' 2 exWorld) ! 15) \<and>
   error (fst (enrichHotelsWithPricing exEngine
       (\<lambda>k q. if k = 1 then Inl ''Booking.com API request failed''
               else Inr [exOffer ''1'' ''ritz'' 100])
       (replicate 25 (toGoogleHotel (exPlace ''a'' ''Ritz'' ''1 Main St'' 4)))
       ''2025-01-01'' ''2025-01-02'' 2 exWorld) ! 15) = Some ''Failed to fetch pricing'' \<and>
   price (fst (enrichHotelsWithPricing exEngine
       (\<lambda>k q. if k = 1 then Inl ''Booking.com API request failed''
               else Inr [exOffer ''1'' ''ritz'' 100])
       (replicate 25 (toGoogleHotel (exPlace ''a'' ''Ritz'' ''1 Main St'' 4)))
       ''2025-01-01'' ''2025-01-02'' 2 exWorld) ! 22) = Some (b_price (exOffer ''1'' ''ritz'' 100))"
proof -
  let ?P = "\<lambda>(k::nat) (q::pricing_query). if k = 1 then Inl ''Booking.com API request failed''
               else Inr [exOffer ''1'' ''ritz'' 100]"
  let ?hs = "replicate 25 (toGoogleHotel (exPlace ''a'' ''Ritz'' ''1 Main St'' 4))"
  have miss: "getCache (cache exWorld) (cacheKey ''2025-01-01'' ''2025-01-02'' 2 ?hs) = None"
    by (simp add: getCache_def exWorld_def)
  have m: "enrichOne exEngine [exOffer ''1'' ''ritz'' 100]
             (toGoogleHotel (exPlace ''a'' ''Ritz'' ''1 Main St'' 4))
         = matchedHotel (toGoogleHotel (exPlace ''a'' ''Ritz'' ''1 Main St'' 4)) (exOffer ''1'' ''ritz'' 100)"
    by (simp add: enrichOne_def findBestBookingMatch_def exOffer_def exPlace_def toGoogleHotel_def
          char_eval)
  have w0: "pricingCalls exWorld = []" by (simp add: exWorld_def)
  show ?thesis
    using miss
      enrich_survives_failed_batch[OF miss, of 3 exEngine ?P]
      enrich_survives_failed_batch[OF miss, of 15 exEngine ?P]
      enrich_survives_failed_batch[OF miss, of 22 exEngine ?P]
    by (simp add: BATCH_SIZE_def w0 m matchedHotel_def)
qed







text \<open>
  C5, as the code has it. \<open>callGoogleGeocodingAPI\<close> throws at once when no key is
  configured; otherwise its attempts count from 1 to 3, one fetch each. An HTTP 429
  response waits \<open>2^attempt \<times> 1000\<close> ms and goes on to the next attempt. A fetch
  that fails, or a successful response whose body cannot be read, waits
  \<open>2^attempt \<times> 1000\<close> ms as well and is tried again while the attempt is below 3,
  and at attempt 3 its error is thrown. Any other HTTP failure is thrown at once,
  with no wait and no retry. A successful response with a body ends the call at once,
  with no wait and no retry: status \<open>OK\<close> with results returns the first result,
  \<open>ZERO_RESULTS\<close> returns null, \<open>OVER_QUERY_LIMIT\<close> throws with status 429,
  \<open>REQUEST_DENIED\<close> with 403, \<open>INVALID_REQUEST\<close> with 400, and any other
  status, or \<open>OK\<close> without results, throws \<open>Geocoding failed\<close> with 500. When the
  attempts are used up the last fetch error is thrown, or a general one when there
  was none. An operation that answers 429 twice and then succeeds returns the result
  of the third answer after waits of 2000 and 4000 ms. In \<open>makeBookingAPIRequest\<close>,
  whose retry count starts at 0: a fetch that fails, or a response whose body cannot
  be read, throws the connection error at once, whatever the status; a 429 response
  waits \<open>1000 \<times> 2^retryCount\<close> ms and is tried again while the count is below 3;
  any other failed response is thrown at once; a successful response returns its
  body; two 429 responses and then a success return the success after waits of 1000
  and 2000 ms.
\<close>

theorem retry_discipline:
  "(attempt \<le> maxRetries \<and> net (fetches io) = GeoResponse 429 body \<longrightarrow>
      geocodeAttempts net attempt lastErr io =
        geocodeAttempts net (attempt + 1) lastErr
          (io\<lparr>fetches := fetches io + 1, delays := delays io @ [2 ^ attempt * 1000]\<rparr>)) \<and>
   (attempt < maxRetries \<and> net (fetches io) = GeoFetchRejected msg \<longrightarrow>
      geocodeAttempts net attempt lastErr io =
        geocodeAttempts net (attempt + 1) (Some (ThrownError msg))
          (io\<lparr>fetches := fetches io + 1, delays := delays io @ [2 ^ attempt * 1000]\<rparr>)) \<and>
   (attempt = maxRetries \<and> net (fetches io) = GeoFetchRejected msg \<longrightarrow>
      geocodeAttempts net attempt lastErr io =
        (Inl (ThrownError msg), io\<lparr>fetches := fetches io + 1\<rparr>)) \<and>
   (attempt \<le> maxRetries \<and> net (fetches io) = GeoResponse code body \<and>
      \<not> responseOk code \<and> code \<noteq> 429 \<longrightarrow>
      geocodeAttempts net attempt lastErr io =
        (Inl (GeocodingError (''Google Geocoding API HTTP '' @ showNat code) code),
         io\<lparr>fetches := fetches io + 1\<rparr>)) \<and>
   (maxRetries < attempt \<longrightarrow>
      geocodeAttempts net attempt lastErr io =
        (Inl (case lastErr of
                Some e \<Rightarrow> e
              | None \<Rightarrow> GeocodingError ''Geocoding service unavailable after retries'' 500), io)) \<and>
   (net 0 = GeoResponse 429 body \<and> net 1 = GeoResponse 429 body \<and>
      net 2 = GeoResponse 200 (Inr data) \<longrightarrow>
      callGoogleGeocodingAPI True net \<lparr>fetches = 0, delays = []\<rparr> =
        (readGeoBody data, \<lparr>fetches = 3, delays = [2000, 4000]\<rparr>)) \<and>
   (retryCount < MAX_RETRIES \<and> bnet (fetches io) = BookingResponse 429 (Inr bdata) \<longrightarrow>
      makeBookingAPIRequest bnet retryCount io =
        makeBookingAPIRequest bnet (retryCount + 1)
          (io\<lparr>fetches := fetches io + 1, delays := delays io @ [RETRY_DELAY * 2 ^ retryCount]\<rparr>)) \<and>
   (bnet (fetches io) = BookingResponse code (Inr bdata) \<and> \<not> responseOk code \<and>
      (code \<noteq> 429 \<or> MAX_RETRIES \<le> retryCount) \<longrightarrow>
      makeBookingAPIRequest bnet retryCount io =
        (Inl (BookingAPIError (messageOr (bb_message bdata) ''Booking.com API request failed'')
                code (bb_code bdata)), io\<lparr>fetches := fetches io + 1\<rparr>)) \<and>
   (bnet 0 = BookingResponse 429 (Inr bdata) \<and> bnet 1 = BookingResponse 429 (Inr bdata) \<and>
      bnet 2 = BookingResponse 200 (Inr bdata) \<longrightarrow>
      makeBookingAPIRequest bnet 0 \<lparr>fetches = 0, delays = []\<rparr> =
        (Inr bdata, \<lparr>fetches = 3, delays = [1000, 2000]\<rparr>)) \<and>
   (attempt \<le> maxRetries \<and> net (fetches io) = GeoResponse code (Inr data) \<and>
      responseOk code \<longrightarrow>
      geocodeAttempts net attempt lastErr io =
        (readGeoBody data, io\<lparr>fetches := fetches io + 1\<rparr>)) \<and>
   (gb_status data = ''OK'' \<and> gb_results data \<noteq> [] \<longrightarrow>
      readGeoBody data = Inr (Some (gb_results data ! 0))) \<and>
   (gb_status data = ''ZERO_RESULTS'' \<longrightarrow> readGeoBody data = Inr None) \<and>
   (gb_status data = ''OVER_QUERY_LIMIT'' \<longrightarrow>
      readGeoBody data = Inl (GeocodingError ''Google Geocoding quota exceeded'' 429)) \<and>
   (gb_status data = ''REQUEST_DENIED'' \<longrightarrow>
      readGeoBody data = Inl (GeocodingError ''Google Geocoding API access denied'' 403)) \<and>
   (gb_status data = ''INVALID_REQUEST'' \<longrightarrow>
      readGeoBody data = Inl (GeocodingError ''Invalid geocoding request'' 400)) \<and>
   ((gb_status data = ''OK'' \<and> gb_results data = []) \<or>
    gb_status data \<notin> {''OK'', ''ZERO_RESULTS'', ''OVER_QUERY_LIMIT'', ''REQUEST_DENIED'',
                         ''INVALID_REQUEST''} \<longrightarrow>
      readGeoBody data = Inl (GeocodingError (''Geocoding failed: '' @ gb_status data) 500)) \<and>
   (attempt < maxRetries \<and> net (fetches io) = GeoResponse code (Inl msg) \<and>
      responseOk code \<longrightarrow>
      geocodeAttempts net attempt lastErr io =
        geocodeAttempts net (attempt + 1) (Some (ThrownError msg))
          (io\<lparr>fetches := fetches io + 1, delays := delays io @ [2 ^ attempt * 1000]\<rparr>)) \<and>
   (attempt = maxRetries \<and> net (fetches io) = GeoResponse code (Inl msg) \<and>
      responseOk code \<longrightarrow>
      geocodeAttempts net attempt lastErr io =
        (Inl (ThrownError msg), io\<lparr>fetches := fetches io + 1\<rparr>)) \<and>
   callGoogleGeocodingAPI False net io =
     (Inl (GeocodingError ''Google Geocoding API key not configured'' 500), io) \<and>
   callGoogleGeocodingAPI True net io = geocodeAttempts net 1 None io \<and>
   (bnet (fetches io) = BookingFetchRejected msg \<longrightarrow>
      makeBookingAPIRequest bnet retryCount io =
        (Inl (BookingAPIError ''Failed to connect to Booking.com API'' 500
                (Some ''CONNECTION_ERROR'')), io\<lparr>fetches := fetches io + 1\<rparr>)) \<and>
   (bnet (fetches io) = BookingResponse code (Inl msg) \<longrightarrow>
      makeBookingAPIRequest bnet retryCount io =
        (Inl (BookingAPIError ''Failed to connect to Booking.com API'' 500
                (Some ''CONNECTION_ERROR'')), io\<lparr>fetches := fetches io + 1\<rparr>)) \<and>
   (bnet (fetches io) = BookingResponse code (Inr bdata) \<and> responseOk code \<longrightarrow>
      makeBookingAPIRequest bnet retryCount io = (Inr bdata, io\<lparr>fetches := fetches io + 1\<rparr>))"
proof (intro conjI impI)
  assume "attempt \<le> maxRetries \<and> net (fetches io) = GeoResponse 429 body"
  then show "geocodeAttempts net attempt lastErr io =
        geocodeAttempts net (attempt + 1) lastErr
          (io\<lparr>fetches := fetches io + 1, delays := delays io @ [2 ^ attempt * 1000]\<rparr>)"
    by (subst geocodeAttempts.simps) (simp add: responseOk_def Let_def)
next
  assume "attempt < maxRetries \<and> net (fetches io) = GeoFetchRejected msg"
  then show "geocodeAttempts net attempt lastErr io =
        geocodeAttempts net (attempt + 1) (Some (ThrownError msg))
          (io\<lparr>fetches := fetches io + 1, delays := delays io @ [2 ^ attempt * 1000]\<rparr>)"
    by (subst geocodeAttempts.simps) (simp add: Let_def)
next
  assume "attempt = maxRetries \<and> net (fetches io) = GeoFetchRejected msg"
  then show "geocodeAttempts net attempt lastErr io =
        (Inl (ThrownError msg), io\<lparr>fetches := fetches io + 1\<rparr>)"
    by (subst geocodeAttempts.simps) (simp add: Let_def)
next
  assume "attempt \<le> maxRetries \<and> net (fetches io) = GeoResponse code body \<and>
      \<not> responseOk code \<and> code \<noteq> 429"
  then show "geocodeAttempts net attempt lastErr io =
        (Inl (GeocodingError (''Google Geocoding API HTTP '' @ showNat code) code),
         io\<lparr>fetches := fetches io + 1\<rparr>)"
    by (subst geocodeAttempts.simps) (simp add: Let_def)
next
  assume "maxRetries < attempt"
  then show "geocodeAttempts net attempt lastErr io =
        (Inl (case lastErr of
                Some e \<Rightarrow> e
              | None \<Rightarrow> GeocodingError ''Geocoding service unavailable after retries'' 500), io)"
    by (subst geocodeAttempts.simps) (simp split: option.splits)
next
  assume "net 0 = GeoResponse 429 body \<and> net 1 = GeoResponse 429 body \<and>
      net 2 = GeoResponse 200 (Inr data)"
  then show "callGoogleGeocodingAPI True net \<lparr>fetches = 0, delays = []\<rparr> =
        (readGeoBody data, \<lparr>fetches = 3, delays = [2000, 4000]\<rparr>)"
    by (simp add: callGoogleGeocodingAPI_def geocodeAttempts.simps maxRetries_def responseOk_def
          Let_def numeral_2_eq_2 numeral_3_eq_3)
next
  assume "retryCount < MAX_RETRIES \<and> bnet (fetches io) = BookingResponse 429 (Inr bdata)"
  then show "makeBookingAPIRequest bnet retryCount io =
        makeBookingAPIRequest bnet (retryCount + 1)
          (io\<lparr>fetches := fetches io + 1, delays := delays io @ [RETRY_DELAY * 2 ^ retryCount]\<rparr>)"
    by (subst makeBookingAPIRequest.simps) (simp add: Let_def responseOk_def)
next
  assume "bnet (fetches io) = BookingResponse code (Inr bdata) \<and> \<not> responseOk code \<and>
      (code \<noteq> 429 \<or> MAX_RETRIES \<le> retryCount)"
  then show "makeBookingAPIRequest bnet retryCount io =
        (Inl (BookingAPIError (messageOr (bb_message bdata) ''Booking.com API request failed'')
                code (bb_code bdata)), io\<lparr>fetches := fetches io + 1\<rparr>)"
    by (subst makeBookingAPIRequest.simps) (auto simp: Let_def)
next
  assume "bnet 0 = BookingResponse 429 (Inr bdata) \<and> bnet 1 = BookingResponse 429 (Inr bdata) \<and>
      bnet 2 = BookingResponse 200 (Inr bdata)"
  then show "makeBookingAPIRequest bnet 0 \<lparr>fetches = 0, delays = []\<rparr> =
        (Inr bdata, \<lparr>fetches = 3, delays = [1000, 2000]\<rparr>)"
    by (simp add: makeBookingAPIRequest.simps MAX_RETRIES_def RETRY_DELAY_def responseOk_def
          Let_def numeral_2_eq_2 numeral_3_eq_3)
next
  assume "attempt \<le> maxRetries \<and> net (fetches io) = GeoResponse code (Inr data) \<and>
      responseOk code"
  then show "geocodeAttempts net attempt lastErr io =
        (readGeoBody data, io\<lparr>fetches := fetches io + 1\<rparr>)"
    by (subst geocodeAttempts.simps) (simp add: Let_def)
next
  assume "gb_status data = ''OK'' \<and> gb_results data \<noteq> []"
  then show "readGeoBody data = Inr (Some (gb_results data ! 0))"
    by (simp add: readGeoBody_def)
next
  assume "gb_status data = ''ZERO_RESULTS''"
  then show "readGeoBody data = Inr None"
    by (simp add: readGeoBody_def)
next
  assume "gb_status data = ''OVER_QUERY_LIMIT''"
  then show "readGeoBody data = Inl (GeocodingError ''Google Geocoding quota exceeded'' 429)"
    by (simp add: readGeoBody_def)
next
  assume "gb_status data = ''REQUEST_DENIED''"
  then show "readGeoBody data = Inl (GeocodingError ''Google Geocoding API access denied'' 403)"
    by (simp add: readGeoBody_def)
next
  assume "gb_status data = ''INVALID_REQUEST''"
  then show "readGeoBody data = Inl (GeocodingError ''Invalid geocoding request'' 400)"
    by (simp add: readGeoBody_def)
next
  assume "(gb_status data = ''OK'' \<and> gb_results data = []) \<or>
    gb_status data \<notin> {''OK'', ''ZERO_RESULTS'', ''OVER_QUERY_LIMIT'', ''REQUEST_DENIED'',
                         ''INVALID_REQUEST''}"
  then show "readGeoBody data = Inl (GeocodingError (''Geocoding failed: '' @ gb_status data) 500)"
    by (auto simp: readGeoBody_def)
next
  assume "attempt < maxRetries \<and> net (fetches io) = GeoResponse code (Inl msg) \<and>
      responseOk code"
  then show "geocodeAttempts net attempt lastErr io =
        geocodeAttempts net (attempt + 1) (Some (ThrownError msg))
          (io\<lparr>fetches := fetches io + 1, delays := delays io @ [2 ^ attempt * 1000]\<rparr>)"
    by (subst geocodeAttempts.simps) (simp add: Let_def)
next
  assume "attempt = maxRetries \<and> net (fetches io) = GeoResponse code (Inl msg) \<and>
      responseOk code"
  then show "geocodeAttempts net attempt lastErr io =
        (Inl (ThrownError msg), io\<lparr>fetches := fetches io + 1\<rparr>)"
    by (subst geocodeAttempts.simps) (simp add: Let_def)
next
  show "callGoogleGeocodingAPI False net io =
     (Inl (GeocodingError ''Google Geocoding API key not configured'' 500), io)"
    by (simp add: callGoogleGeocodingAPI_def)
next
  show "callGoogleGeocodingAPI True net io = geocodeAttempts net 1 None io"
    by (simp add: callGoogleGeocodingAPI_def)
next
  assume "bnet (fetches io) = BookingFetchRejected msg"
  then show "makeBookingAPIRequest bnet retryCount io =
        (Inl (BookingAPIError ''Failed to connect to Booking.com API'' 500
                (Some ''CONNECTION_ERROR'')), io\<lparr>fetches := fetches io + 1\<rparr>)"
    by (subst makeBookingAPIRequest.simps) (simp add: Let_def connectionError_def)
next
  assume "bnet (fetches io) = BookingResponse code (Inl msg)"
  then show "makeBookingAPIRequest bnet retryCount io =
        (Inl (BookingAPIError ''Failed to connect to Booking.com API'' 500
                (Some ''CONNECTION_ERROR'')), io\<lparr>fetches := fetches io + 1\<rparr>)"
    by (subst makeBookingAPIRequest.simps) (simp add: Let_def connectionError_def)
next
  assume "bnet (fetches io) = BookingResponse code (Inr bdata) \<and> responseOk code"
  then show "makeBookingAPIRequest bnet retryCount io = (Inr bdata, io\<lparr>fetches := fetches io + 1\<rparr>)"
    by (subst makeBookingAPIRequest.simps) (simp add: Let_def)
qed

theorem retry_discipline_witness:
  "callGoogleGeocodingAPI True
     (\<lambda>k. if k < 2 then GeoResponse 429 (Inr exGeoBody) else GeoResponse 200 (Inr exGeoBody))
     \<lparr>fetches = 0, delays = []\<rparr> = (Inr None, \<lparr>fetches = 3, delays = [2000, 4000]\<rparr>) \<and>
   makeBookingAPIRequest
     (\<lambda>k. if k < 2 then BookingResponse 429 (Inr exBookingBody)
           else BookingResponse 200 (Inr exBookingBody))
     0 \<lparr>fetches = 0, delays = []\<rparr> = (Inr exBookingBody, \<lparr>fetches = 3, delays = [1000, 2000]\<rparr>) \<and>
   geocodeAttempts (\<lambda>k. GeoFetchRejected ''socket hang up'') 3 None exIo =
     (Inl (ThrownError ''socket hang up''), \<lparr>fetches = 1, delays = []\<rparr>) \<and>
   makeBookingAPIRequest (\<lambda>k. BookingResponse 503 (Inr exBookingBody)) 0 exIo =
     (Inl (BookingAPIError ''Booking.com API request failed'' 503 None), \<lparr>fetches = 1, delays = []\<rparr>) \<and>
   geocodeAttempts
     (\<lambda>k. GeoResponse 200 (Inr \<lparr>gb_status = ''OVER_QUERY_LIMIT'', gb_results = []\<rparr>)) 1 None exIo =
     (Inl (GeocodingError ''Google Geocoding quota exceeded'' 429), \<lparr>fetches = 1, delays = []\<rparr>) \<and>
   makeBookingAPIRequest (\<lambda>k. BookingFetchRejected ''socket hang up'') 0 exIo =
     (Inl (BookingAPIError ''Failed to connect to Booking.com API'' 500 (Some ''CONNECTION_ERROR'')),
      \<lparr>fetches = 1, delays = []\<rparr>)"
proof -
  let ?net = "\<lambda>k::nat. if k < 2 then GeoResponse 429 (Inr exGeoBody)
                       else GeoResponse 200 (Inr exGeoBody)"
  let ?bnet = "\<lambda>k::nat. if k < 2 then BookingResponse 429 (Inr exBookingBody)
                        else BookingResponse 200 (Inr exBookingBody)"
  let ?quota = "\<lparr>gb_status = ''OVER_QUERY_LIMIT'', gb_results = []\<rparr>"
  note scenario = retry_discipline[of 3 ?net exIo "Inr exGeoBody" None "''socket hang up''" 503
      exGeoBody 0 ?bnet exBookingBody]
  note failing = retry_discipline[of 3 "\<lambda>k. GeoFetchRejected ''socket hang up''" exIo
      "Inr exGeoBody" None "''socket hang up''" 503 exGeoBody 0
      "\<lambda>k. BookingResponse 503 (Inr exBookingBody)" exBookingBody]
  note limited = retry_discipline[of 1 "\<lambda>k. GeoResponse 200 (Inr ?quota)" exIo
      "Inr exGeoBody" None "''socket hang up''" 200 ?quota 0
      "\<lambda>k. BookingFetchRejected ''socket hang up''" exBookingBody]
  have h6: "?net 0 = GeoResponse 429 (Inr exGeoBody) \<and> ?net 1 = GeoResponse 429 (Inr exGeoBody) \<and>
        ?net 2 = GeoResponse 200 (Inr exGeoBody)" by simp
  note geo = scenario[THEN conjunct2, THEN conjunct2, THEN conjunct2, THEN conjunct2, THEN conjunct2, THEN conjunct1, rule_format, OF h6]
  have a: "callGoogleGeocodingAPI True ?net \<lparr>fetches = 0, delays = []\<rparr> =
        (Inr None, \<lparr>fetches = 3, delays = [2000, 4000]\<rparr>)"
    using geo by (simp add: readGeoBody_def exGeoBody_def)
  have h9: "?bnet 0 = BookingResponse 429 (Inr exBookingBody) \<and>
        ?bnet 1 = BookingResponse 429 (Inr exBookingBody) \<and>
        ?bnet 2 = BookingResponse 200 (Inr exBookingBody)" by simp
  note b = scenario[THEN conjunct2, THEN conjunct2, THEN conjunct2, THEN conjunct2, THEN conjunct2, THEN conjunct2, THEN conjunct2, THEN conjunct2, THEN conjunct1, rule_format, OF h9]
  have h3: "3 = maxRetries \<and>
        (\<lambda>k::nat. GeoFetchRejected ''socket hang up'') (fetches exIo) = GeoFetchRejected ''socket hang up''"
    by (simp add: maxRetries_def)
  note rejected = failing[THEN conjunct2, THEN conjunct2, THEN conjunct1, rule_format, OF h3]
  have c: "geocodeAttempts (\<lambda>k. GeoFetchRejected ''socket hang up'') 3 None exIo =
        (Inl (ThrownError ''socket hang up''), \<lparr>fetches = 1, delays = []\<rparr>)"
    using rejected by (simp add: exIo_def)
  have h8: "(\<lambda>k::nat. BookingResponse 503 (Inr exBookingBody)) (fetches exIo) =
          BookingResponse 503 (Inr exBookingBody) \<and> \<not> responseOk 503 \<and>
        ((503::nat) \<noteq> 429 \<or> MAX_RETRIES \<le> 0)"
    by (simp add: responseOk_def)
  note unavailable = failing[THEN conjunct2, THEN conjunct2, THEN conjunct2, THEN conjunct2, THEN conjunct2, THEN conjunct2, THEN conjunct2, THEN conjunct1, rule_format, OF h8]
  have d: "makeBookingAPIRequest (\<lambda>k. BookingResponse 503 (Inr exBookingBody)) 0 exIo =
     (Inl (BookingAPIError ''Booking.com API request failed'' 503 None), \<lparr>fetches = 1, delays = []\<rparr>)"
    using unavailable by (simp add: exIo_def exBookingBody_def messageOr_def)
  have h10: "1 \<le> maxRetries \<and>
        (\<lambda>k::nat. GeoResponse 200 (Inr ?quota)) (fetches exIo) = GeoResponse 200 (Inr ?quota) \<and>
        responseOk 200"
    by (simp add: maxRetries_def responseOk_def)
  note answered = limited[THEN conjunct2, THEN conjunct2, THEN conjunct2, THEN conjunct2, THEN conjunct2, THEN conjunct2, THEN conjunct2, THEN conjunct2, THEN conjunct2, THEN conjunct1, rule_format, OF h10]
  have h13: "gb_status ?quota = ''OVER_QUERY_LIMIT''" by simp
  note quota = limited[THEN conjunct2, THEN conjunct2, THEN conjunct2, THEN conjunct2, THEN conjunct2, THEN conjunct2, THEN conjunct2, THEN conjunct2, THEN conjunct2, THEN conjunct2, THEN conjunct2, THEN conjunct2, THEN conjunct1, rule_format, OF h13]
  have e: "geocodeAttempts (\<lambda>k. GeoResponse 200 (Inr ?quota)) 1 None exIo =
     (Inl (GeocodingError ''Google Geocoding quota exceeded'' 429), \<lparr>fetches = 1, delays = []\<rparr>)"
    unfolding answered quota by (simp add: exIo_def)
  have h21: "(\<lambda>k::nat. BookingFetchRejected ''socket hang up'') (fetches exIo) =
          BookingFetchRejected ''socket hang up''" by simp
  note unreachable = limited[THEN conjunct2, THEN conjunct2, THEN conjunct2, THEN conjunct2, THEN conjunct2, THEN conjunct2, THEN conjunct2, THEN conjunct2, THEN conjunct2, THEN conjunct2, THEN conjunct2, THEN conjunct2, THEN conjunct2, THEN conjunct2, THEN conjunct2, THEN conjunct2, THEN conjunct2, THEN conjunct2, THEN conjunct2, THEN conjunct2, THEN conjunct1, rule_format, OF h21]
  have f: "makeBookingAPIRequest (\<lambda>k. BookingFetchRejected ''socket hang up'') 0 exIo =
     (Inl (BookingAPIError ''Failed to connect to Booking.com API'' 500 (Some ''CONNECTION_ERROR'')),
      \<lparr>fetches = 1, delays = []\<rparr>)"
    using unreachable by (simp add: exIo_def)
  from a b c d e f show ?thesis by blast
qed

text \<open>
  C5, as the specification has it, fails on any other failure: after a fetch that
  failed at attempt 1 the geocoding call waits 2000 ms, not 1000 ms, and the booking
  call throws an HTTP 500 at once, with no wait and no second fetch.
\<close>

theorem retry_other_failure_counterexample:
  "callGoogleGeocodingAPI True
     (\<lambda>k. if k = 0 then GeoFetchRejected ''socket hang up'' else GeoResponse 200 (Inr exGeoBody))
     exIo = (Inr None, \<lparr>fetches = 2, delays = [2000]\<rparr>) \<and>
   makeBookingAPIRequest (\<lambda>k. BookingResponse 500 (Inr exBookingBody)) 0 exIo =
     (Inl (BookingAPIError ''Booking.com API request failed'' 500 None), \<lparr>fetches = 1, delays = []\<rparr>)"
  by (simp add: callGoogleGeocodingAPI_def geocodeAttempts.simps makeBookingAPIRequest.simps
        maxRetries_def MAX_RETRIES_def responseOk_def readGeoBody_def exGeoBody_def
        exBookingBody_def exIo_def messageOr_def Let_def)

text \<open>
  C6. The health status should be critical when more than half of a provider's calls
  failed. After one call of \<open>google_geocoding\<close> that threw, the error rate reported
  is 100 and the status is healthy: the status is computed from the property
  \<open>errorRate\<close> of the metrics object, which no metrics object has.
\<close>

theorem health_ignores_error_rate:
  "getAPIHealthStatus
     (trackAPICall ''google_geocoding'' (Threw 12 ''2025-01-01T00:00:00.000Z'' ''quota exceeded'')
        initialMetrics) ''google_geocoding'' =
   Some \<lparr>h_status = ''healthy'', h_errorRate = 100, h_averageResponseTime = 0,
         h_lastSuccess = None,
         h_lastError = Some (''2025-01-01T00:00:00.000Z'', ''quota exceeded'')\<rparr>"
  by (simp add: getAPIHealthStatus_def trackAPICall_def initialMetrics_def newMetrics_def
        healthOf_def recentAverageOf_def errorRateProperty_def jsGreater_def mathRound_def Let_def)

text \<open>
  C7, as the code has it. \<open>searchHotels\<close> does not collapse entries: on a cache
  miss the list it returns has one entry for every record of the discovery answer,
  each carrying its record, whatever the names and addresses.
\<close>

theorem searchHotels_keeps_every_record:
  assumes "searchHotels E google pricing args w = (Inr r, w')"
      and "google (the (latitude args)) (the (longitude args)) = Body st results em"
      and "getCache (cache w)
             (cacheKey (the (checkIn args)) (the (checkOut args)) (guestCountOf E (guests args))
                (map toGoogleHotel results)) = None"
  shows "mset (map base (hotels r)) = mset (map toGoogleHotel results) \<and>
         length (hotels r) = length results"
proof -
  define w1 where "w1 = w\<lparr>googleCalls := googleCalls w @ [(the (latitude args), the (longitude args))]\<rparr>"
  have miss: "getCache (cache w1)
             (cacheKey (the (checkIn args)) (the (checkOut args)) (guestCountOf E (guests args))
                (map toGoogleHotel results)) = None"
    using assms(3) by (simp add: w1_def)
  have "hotels r = arraySort compareHotels
          (fst (enrichBatches E pricing (the (checkIn args)) (the (checkOut args))
                  (guestCountOf E (guests args)) (map toGoogleHotel results) 0 [] w1))"
    using assms(1,2) enrich_miss[OF miss, of E pricing]
    by (auto simp: searchHotels_def runSearch_def makeResult_def Let_def case_prod_unfold w1_def
          split: if_splits)
  then have "mset (map base (hotels r)) = mset (map toGoogleHotel results)"
    using map_base_enrichBatches[of E pricing "the (checkIn args)" "the (checkOut args)"
            "guestCountOf E (guests args)" "map toGoogleHotel results" w1]
    by (metis mset_arraySort mset_map)
  moreover from this have "length (hotels r) = length results"
    by (metis length_map size_mset)
  ultimately show ?thesis by simp
qed

theorem searchHotels_keeps_every_record_witness:
  "getCache (cache exWorld)
     (cacheKey (the (checkIn (exArgs (Number (Some 2))))) (the (checkOut (exArgs (Number (Some 2)))))
        (guestCountOf exEngine (guests (exArgs (Number (Some 2)))))
        (map toGoogleHotel [exPlace ''a'' ''Ritz'' ''1 Main St'' 3,
                            exPlace ''b'' ''RITZ'' ''1 main st'' 3])) = None \<and>
   length (hotels (makeResult
       [unmatchedHotel (toGoogleHotel (exPlace ''a'' ''Ritz'' ''1 Main St'' 3)),
        unmatchedHotel (toGoogleHotel (exPlace ''b'' ''RITZ'' ''1 main st'' 3))])) = 2 \<and>
   mset (map base (hotels (makeResult
       [unmatchedHotel (toGoogleHotel (exPlace ''a'' ''Ritz'' ''1 Main St'' 3)),
        unmatchedHotel (toGoogleHotel (exPlace ''b'' ''RITZ'' ''1 main st'' 3))]))) =
   mset (map toGoogleHotel [exPlace ''a'' ''Ritz'' ''1 Main St'' 3,
                            exPlace ''b'' ''RITZ'' ''1 main st'' 3])"
proof -
  have miss: "getCache (cache exWorld)
     (cacheKey (the (checkIn (exArgs (Number (Some 2))))) (the (checkOut (exArgs (Number (Some 2)))))
        (guestCountOf exEngine (guests (exArgs (Number (Some 2)))))
        (map toGoogleHotel [exPlace ''a'' ''Ritz'' ''1 Main St'' 3,
                            exPlace ''b'' ''RITZ'' ''1 main st'' 3])) = None"
    by (simp add: getCache_def exWorld_def)
  from searchHotels_keeps_every_record[OF pair_from_fst[OF ex_same_name_and_address] refl miss] miss
  show ?thesis by simp
qed

text \<open>
  C7, as the specification has it, fails: two discovery records whose names and
  addresses are equal once lowercased are both in the list \<open>searchHotels\<close> returns.
\<close>

theorem searchHotels_duplicates_counterexample:
  "fst (searchHotels exEngine
         (\<lambda>lat lng. Body ''OK'' [exPlace ''a'' ''Ritz'' ''1 Main St'' 3,
                                  exPlace ''b'' ''RITZ'' ''1 main st'' 3] None)
         (\<lambda>k q. Inr [])
         (exArgs (Number (Some 2))) exWorld)
   = Inr (makeResult
       [unmatchedHotel (toGoogleHotel (exPlace ''a'' ''Ritz'' ''1 Main St'' 3)),
        unmatchedHotel (toGoogleHotel (exPlace ''b'' ''RITZ'' ''1 main st'' 3))]) \<and>
   toLowerCase exEngine (g_name (toGoogleHotel (exPlace ''a'' ''Ritz'' ''1 Main St'' 3))) @ ''_'' @
     toLowerCase exEngine (g_address (toGoogleHotel (exPlace ''a'' ''Ritz'' ''1 Main St'' 3))) =
   toLowerCase exEngine (g_name (toGoogleHotel (exPlace ''b'' ''RITZ'' ''1 main st'' 3))) @ ''_'' @
     toLowerCase exEngine (g_address (toGoogleHotel (exPlace ''b'' ''RITZ'' ''1 main st'' 3)))"
  using ex_same_name_and_address
  by (simp add: toGoogleHotel_def exPlace_def char_eval)

text \<open>
  C8, as the code has it. For strings \<open>s\<close> and \<open>t\<close> that are not both empty,
  \<open>calculateStringSimilarity\<close> gives the same number for \<open>s, t\<close> and for
  \<open>t, s\<close>, and for a non-empty \<open>s\<close> the similarity of \<open>s\<close> with itself is 1.
\<close>

theorem similarity_reflexive_symmetric:
  assumes "s \<noteq> [] \<or> t \<noteq> []"
  shows "(\<exists>r. calculateStringSimilarity E s t = Some r \<and> calculateStringSimilarity E t s = Some r) \<and>
         (s \<noteq> [] \<longrightarrow> calculateStringSimilarity E s s = Some 1)"
proof
  have "lev s t (length s) (length t) = lev t s (length t) (length s)"
    by (rule lev_sym)
  then show "\<exists>r. calculateStringSimilarity E s t = Some r \<and> calculateStringSimilarity E t s = Some r"
    using assms by (auto simp: calculateStringSimilarity_lev max.commute)
  show "s \<noteq> [] \<longrightarrow> calculateStringSimilarity E s s = Some 1"
    by (simp add: calculateStringSimilarity_lev lev_refl)
qed

theorem similarity_reflexive_symmetric_witness:
  "''ritz'' \<noteq> [] \<and>
   calculateStringSimilarity exEngine ''ritz'' ''ritzy'' = calculateStringSimilarity exEngine ''ritzy'' ''ritz'' \<and>
   calculateStringSimilarity exEngine ''ritz'' ''ritz'' = Some 1"
  using similarity_reflexive_symmetric[of "''ritz''" "''ritzy''" exEngine] by auto

text \<open>
  C8, as the specification has it, fails for the empty string: the similarity of
  the empty string with itself is \<open>0 / 0\<close>, not a number, and not 1.
\<close>

theorem similarity_empty_counterexample:
  "calculateStringSimilarity exEngine [] [] = None \<and> calculateStringSimilarity exEngine [] [] \<noteq> Some 1"
  by (simp add: calculateStringSimilarity_def)

text \<open>
  C10. With coordinates and dates that pass the first two checks: when \<open>parseInt\<close>
  of \<open>guests\<close> is not a number or is 0 (the argument is absent, zero or not numeric),
  \<open>searchHotels\<close> goes on with a guest count of 2 and raises no validation error;
  and it throws \<open>Guest count must be between 1 and 10\<close> exactly when \<open>parseInt\<close> of
  \<open>guests\<close> is a number other than 0 below 1 or above 10. \<open>parseInt\<close> is not a
  number for \<open>undefined\<close>, \<open>null\<close> and \<open>NaN\<close>, and for an integer below \<open>10^21\<close>
  in absolute value it is that integer.
\<close>

theorem searchHotels_guests_default:
  assumes "truthyNumber (latitude args)" "truthyNumber (longitude args)"
      and "truthyString (checkIn args)" "truthyString (checkOut args)"
  shows "(parseInt E (guests args) = None \<or> parseInt E (guests args) = Some 0 \<longrightarrow>
            searchHotels E google pricing args w =
              runSearch E google pricing (the (latitude args)) (the (longitude args))
                (the (checkIn args)) (the (checkOut args)) 2 w \<and>
            (\<forall>msg. fst (searchHotels E google pricing args w) \<noteq> Inl (Error msg))) \<and>
         (fst (searchHotels E google pricing args w) = Inl (Error ''Guest count must be between 1 and 10'')
            \<longleftrightarrow> (\<exists>n. parseInt E (guests args) = Some n \<and> n \<noteq> 0 \<and> (n < 1 \<or> 10 < n))) \<and>
         parseInt E Undefined = None \<and> parseInt E Null = None \<and> parseInt E (Number None) = None \<and>
         (\<forall>n. \<bar>n\<bar> < 10 ^ 21 \<longrightarrow> parseInt E (Number (Some (of_int n))) = Some n)"
proof -
  have a: "searchHotels E google pricing args w =
        (if guestCountOf E (guests args) < 1 \<or> guestCountOf E (guests args) > 10
         then (Inl (Error ''Guest count must be between 1 and 10''), w)
         else runSearch E google pricing (the (latitude args)) (the (longitude args))
                (the (checkIn args)) (the (checkOut args)) (guestCountOf E (guests args)) w)"
    using assms by (simp add: searchHotels_def Let_def)
  have b: "guestCountOf E (guests args) = 2"
    if "parseInt E (guests args) = None \<or> parseInt E (guests args) = Some 0"
    using that by (auto simp: guestCountOf_def)
  have c: "(guestCountOf E (guests args) < 1 \<or> guestCountOf E (guests args) > 10) \<longleftrightarrow>
           (\<exists>n. parseInt E (guests args) = Some n \<and> n \<noteq> 0 \<and> (n < 1 \<or> 10 < n))"
    by (auto simp: guestCountOf_def split: option.splits)
  have d: "parseInt E (Number (Some (of_int n))) = Some n" if "\<bar>n\<bar> < 10 ^ 21" for n
  proof -
    have "\<bar>real_of_int n\<bar> < 10 ^ 21"
      using that by (metis of_int_abs of_int_less_iff of_int_numeral of_int_power)
    then show ?thesis by simp
  qed
  have main: "(parseInt E (guests args) = None \<or> parseInt E (guests args) = Some 0 \<longrightarrow>
            searchHotels E google pricing args w =
              runSearch E google pricing (the (latitude args)) (the (longitude args))
                (the (checkIn args)) (the (checkOut args)) 2 w \<and>
            (\<forall>msg. fst (searchHotels E google pricing args w) \<noteq> Inl (Error msg))) \<and>
         (fst (searchHotels E google pricing args w) = Inl (Error ''Guest count must be between 1 and 10'')
            \<longleftrightarrow> (\<exists>n. parseInt E (guests args) = Some n \<and> n \<noteq> 0 \<and> (n < 1 \<or> 10 < n)))"
    unfolding a using b c runSearch_no_Error[of E google pricing] by auto
  have e: "parseInt E Undefined = None \<and> parseInt E Null = None \<and> parseInt E (Number None) = None"
    by simp
  have f: "\<forall>n. \<bar>n\<bar> < 10 ^ 21 \<longrightarrow> parseInt E (Number (Some (of_int n))) = Some n"
    using d by blast
  from main e f show ?thesis by blast
qed

theorem searchHotels_guests_default_witness:
  "truthyNumber (latitude (exArgs Undefined)) \<and> truthyString (checkIn (exArgs Undefined)) \<and>
   searchHotels exEngine (\<lambda>lat lng. Body ''ZERO_RESULTS'' [] None) (\<lambda>k q. Inr []) (exArgs Undefined) exWorld =
     runSearch exEngine (\<lambda>lat lng. Body ''ZERO_RESULTS'' [] None) (\<lambda>k q. Inr []) 1 1
       ''2025-01-01'' ''2025-01-02'' 2 exWorld \<and>
   searchHotels exEngine (\<lambda>lat lng. Body ''ZERO_RESULTS'' [] None) (\<lambda>k q. Inr [])
       (exArgs (Number (Some 0))) exWorld =
     runSearch exEngine (\<lambda>lat lng. Body ''ZERO_RESULTS'' [] None) (\<lambda>k q. Inr []) 1 1
       ''2025-01-01'' ''2025-01-02'' 2 exWorld \<and>
   searchHotels exEngine (\<lambda>lat lng. Body ''ZERO_RESULTS'' [] None) (\<lambda>k q. Inr [])
       (exArgs (String ''two'')) exWorld =
     runSearch exEngine (\<lambda>lat lng. Body ''ZERO_RESULTS'' [] None) (\<lambda>k q. Inr []) 1 1
       ''2025-01-01'' ''2025-01-02'' 2 exWorld \<and>
   fst (searchHotels exEngine (\<lambda>lat lng. Body ''ZERO_RESULTS'' [] None) (\<lambda>k q. Inr [])
          (exArgs (String ''11'')) exWorld) = Inl (Error ''Guest count must be between 1 and 10'') \<and>
   fst (searchHotels exEngine (\<lambda>lat lng. Body ''ZERO_RESULTS'' [] None) (\<lambda>k q. Inr [])
          (exArgs (Number (Some (- 3)))) exWorld) = Inl (Error ''Guest count must be between 1 and 10'') \<and>
   fst (searchHotels exEngine (\<lambda>lat lng. Body ''ZERO_RESULTS'' [] None) (\<lambda>k q. Inr [])
          (exArgs (String ''4'')) exWorld) \<noteq> Inl (Error ''Guest count must be between 1 and 10'') \<and>
   parseInt exEngine (Number (Some 7)) = Some 7"
proof -
  let ?G = "\<lambda>(lat::real) (lng::real). Body ''ZERO_RESULTS'' [] None"
  let ?P = "\<lambda>(k::nat) (q::pricing_query). Inr [] :: string + booking_hotel list"
  have v: "truthyNumber (latitude (exArgs g))" "truthyNumber (longitude (exArgs g))"
    "truthyString (checkIn (exArgs g))" "truthyString (checkOut (exArgs g))" for g
    by (simp_all add: exArgs_def truthyNumber_def truthyString_def)
  have sel: "the (latitude (exArgs g)) = 1" "the (longitude (exArgs g)) = 1"
    "the (checkIn (exArgs g)) = ''2025-01-01''" "the (checkOut (exArgs g)) = ''2025-01-02''"
    "guests (exArgs g) = g" for g
    by (simp_all add: exArgs_def)
  have ws: "strWhiteSpace exEngine = exWhiteSpace" by (simp add: exEngine_def)
  have p: "parseInt exEngine Undefined = None" "parseInt exEngine (Number (Some 0)) = Some 0"
    "parseInt exEngine (String ''two'') = None" "parseInt exEngine (String ''11'') = Some 11"
    "parseInt exEngine (Number (Some (- 3))) = Some (- 3)"
    "parseInt exEngine (String ''4'') = Some 4"
    by (simp_all add: parseIntString_def ws exWhiteSpace_def isRadixDigit_def digitValue_def
          digitsValue_def)
  note t = searchHotels_guests_default[OF v, of exEngine _ ?G ?P exWorld, unfolded sel]
  note t1 = t[THEN conjunct1, rule_format]
  note t2 = t[THEN conjunct2, THEN conjunct1]
  note t3 = t[of Undefined, THEN conjunct2, THEN conjunct2, THEN conjunct2, THEN conjunct2,
              THEN conjunct2, rule_format]
  have a: "searchHotels exEngine ?G ?P (exArgs Undefined) exWorld =
             runSearch exEngine ?G ?P 1 1 ''2025-01-01'' ''2025-01-02'' 2 exWorld"
    using t1[of Undefined] p(1) by simp
  have b: "searchHotels exEngine ?G ?P (exArgs (Number (Some 0))) exWorld =
             runSearch exEngine ?G ?P 1 1 ''2025-01-01'' ''2025-01-02'' 2 exWorld"
    using t1[of "Number (Some 0)"] p(2) by simp
  have c: "searchHotels exEngine ?G ?P (exArgs (String ''two'')) exWorld =
             runSearch exEngine ?G ?P 1 1 ''2025-01-01'' ''2025-01-02'' 2 exWorld"
    using t1[of "String ''two''"] p(3) by simp
  have d: "fst (searchHotels exEngine ?G ?P (exArgs (String ''11'')) exWorld) =
             Inl (Error ''Guest count must be between 1 and 10'')"
    using t2[of "String ''11''"] p(4) by simp
  have e: "fst (searchHotels exEngine ?G ?P (exArgs (Number (Some (- 3)))) exWorld) =
             Inl (Error ''Guest count must be between 1 and 10'')"
    using t2[of "Number (Some (- 3))"] p(5) by simp
  have f: "fst (searchHotels exEngine ?G ?P (exArgs (String ''4'')) exWorld) \<noteq>
             Inl (Error ''Guest count must be between 1 and 10'')"
    using t2[of "String ''4''"] p(6) by simp
  have g: "parseInt exEngine (Number (Some 7)) = Some 7"
    using t3[of 7] by simp
  from v[of Undefined] a b c d e f g show ?thesis by blast
qed

end
